theory Spec2Isabelle
  imports Complex_Main "HOL-Library.Log_Nat"
begin

section \<open>JavaScript values used by the sync engine\<close>

subsection \<open>Numbers\<close>

text \<open>
  A JavaScript number is an IEEE 754 binary64 value. Prices are finite and far from the
  limits of the format, so a number is modelled by the rational it denotes, and every
  arithmetic operation rounds its exact result to the nearest value with a 53 bit
  significand, ties to the even significand (\<open>fl\<close>). Infinities, NaN and subnormal
  numbers are outside the model.
\<close>

type_synonym number = rat

definition pow2 :: "int \<Rightarrow> rat" where
  "pow2 e = (if 0 \<le> e then 2 ^ nat e else 1 / 2 ^ nat (- e))"

definition ilog2 :: "rat \<Rightarrow> int" where
  \<comment> \<open>the exponent of a positive rational: \<open>pow2 (ilog2 x) \<le> x < pow2 (ilog2 x + 1)\<close>\<close>
  "ilog2 x = (if 1 \<le> x then bitlen \<lfloor>x\<rfloor> - 1 else - bitlen (\<lceil>1 / x\<rceil> - 1))"

definition roundTiesToEven :: "rat \<Rightarrow> int" where
  "roundTiesToEven x =
     (let f = \<lfloor>x\<rfloor>; d = x - of_int f
      in if d < 1 / 2 then f else if 1 / 2 < d then f + 1 else if even f then f else f + 1)"

definition fl :: "rat \<Rightarrow> number" where
  "fl x = (if x = 0 then 0
           else let e = ilog2 \<bar>x\<bar> - 52 in of_int (roundTiesToEven (x / pow2 e)) * pow2 e)"

definition fmul :: "number \<Rightarrow> number \<Rightarrow> number" where
  "fmul x y = fl (x * y)"

definition fadd :: "number \<Rightarrow> number \<Rightarrow> number" where
  "fadd x y = fl (x + y)"

definition fdiv :: "number \<Rightarrow> number \<Rightarrow> number" where
  "fdiv x y = fl (x / y)"

definition toFixed2 :: "number \<Rightarrow> int" where
  \<comment> \<open>\<open>x.toFixed(2)\<close>: the decimal string with two fraction digits nearest to the exact
      value of \<open>x\<close>, the larger one on a tie; the model returns the number of hundredths
      that the string spells.\<close>
  "toFixed2 x = (if x < 0 then - \<lfloor>- x * 100 + 1 / 2\<rfloor> else \<lfloor>x * 100 + 1 / 2\<rfloor>)"

definition toNumber :: "number option \<Rightarrow> number" where
  \<comment> \<open>\<open>null\<close> used as an operand of \<open>*\<close> is \<open>0\<close>\<close>
  "toNumber v = (case v of None \<Rightarrow> 0 | Some x \<Rightarrow> x)"

definition truthy_number :: "number option \<Rightarrow> bool" where
  \<comment> \<open>\<open>undefined\<close>, \<open>null\<close> and \<open>0\<close> are falsy\<close>
  "truthy_number v = (case v of None \<Rightarrow> False | Some x \<Rightarrow> x \<noteq> 0)"

definition truthy_string :: "string option \<Rightarrow> bool" where
  \<comment> \<open>\<open>undefined\<close>, \<open>null\<close> and the empty string are falsy\<close>
  "truthy_string v = (case v of None \<Rightarrow> False | Some s \<Rightarrow> s \<noteq> [])"

definition truthy_bool :: "bool option \<Rightarrow> bool" where
  "truthy_bool v = (case v of None \<Rightarrow> False | Some b \<Rightarrow> b)"

subsection \<open>Dates\<close>

text \<open>
  A \<open>Date\<close> is its time value, the milliseconds since the epoch; \<open>new Date()\<close> is a
  parameter \<open>now\<close> of the operation that reads the clock. Local time follows the rules
  of the host's time zone, which are not part of the repository: a \<open>zone\<close> gives the
  offset in force at an instant (\<open>LocalTZA(t, true)\<close> of the language specification) and
  the offset by which a local time value is read (\<open>LocalTZA(t, false)\<close>; for a local
  time skipped or repeated by a transition, the offset before the transition).
  \<open>LocalTime\<close>, \<open>UTC\<close>, \<open>Day\<close> and \<open>TimeWithinDay\<close> are the abstract operations of the
  language specification.
\<close>

type_synonym date = int

definition msPerDay :: int where
  "msPerDay = 86400000"

record zone =
  utcOffset :: "date \<Rightarrow> int"
  localOffset :: "int \<Rightarrow> int"

definition LocalTime :: "zone \<Rightarrow> date \<Rightarrow> int" where
  "LocalTime z t = t + utcOffset z t"

definition UTC :: "zone \<Rightarrow> int \<Rightarrow> date" where
  "UTC z tloc = tloc - localOffset z tloc"

definition Day :: "int \<Rightarrow> int" where
  "Day t = t div msPerDay"




definition addDays :: "zone \<Rightarrow> int \<Rightarrow> date \<Rightarrow> date" where
  \<comment> \<open>\<open>d.setDate(d.getDate() + n)\<close>: the local date moves by \<open>n\<close> days, the local time of
      day stays, and the result is read back as a local time\<close>
  "addDays z n t = UTC z (LocalTime z t + n * msPerDay)"

definition setHours :: "zone \<Rightarrow> int \<Rightarrow> int \<Rightarrow> int \<Rightarrow> int \<Rightarrow> date \<Rightarrow> date" where
  \<comment> \<open>\<open>d.setHours(h, m, s, ms)\<close>: the local date stays, the local time of day is set, and
      the result is read back as a local time\<close>
  "setHours z h m s ms t =
     UTC z (Day (LocalTime z t) * msPerDay + (h * 3600000 + m * 60000 + s * 1000 + ms))"




section \<open>The persistent store\<close>

text \<open>
  The tables of \<open>schema.prisma\<close> that the sync engine, the scheduler and the garage
  service read and write. A table is the list of its rows in insertion order. An
  identifier generated by \<open>cuid()\<close> is a natural number drawn from the counter
  \<open>nextId\<close>. The columns \<open>createdAt\<close> and \<open>updatedAt\<close> are written by the store and
  read by no operation modelled here; they are left out.
\<close>

datatype error =
    ConfigNotFound \<comment> \<open>\<open>Turn 14 configuration not found\<close>\<close>
  | NoBrandsSelected \<comment> \<open>\<open>No brands selected for product sync\<close>\<close>
  | UnknownSyncType string \<comment> \<open>\<open>Unknown sync type: ...\<close>\<close>
  | ProductNotFound string \<comment> \<open>\<open>Product not found: ...\<close>\<close>
  | VehicleLimitReached int \<comment> \<open>\<open>Vehicle limit reached. Maximum ... vehicles allowed.\<close>\<close>
  | VehicleNotFound \<comment> \<open>\<open>Vehicle not found or access denied\<close>\<close>
  | RecordNotFound \<comment> \<open>the store: update of a row that does not exist\<close>
  | UniqueConstraint \<comment> \<open>the store: a unique index rejects the row\<close>
  | ValidationError string
    \<comment> \<open>the store: the \<open>data\<close> of a write names a field the model does not have\<close>
  | External string \<comment> \<open>thrown by the distributor's or the storefront's API\<close>

record turn14Config =
  c_shop :: string
  apiKey :: string
  apiSecret :: string
  environment :: string
  selectedBrands :: "string list option" \<comment> \<open>the JSON text, parsed\<close>

record turn14ImportedProduct =
  p_id :: nat
  p_shop :: string
  turn14Sku :: string
  shopifyProductId :: string
  shopifyVariantId :: "string option"
  turn14Brand :: "string option"
  turn14Category :: "string option"
  originalPrice :: "number option"
  currentPrice :: "number option"
  priceMarkup :: number
  inventoryQuantity :: int
  lastSynced :: "date option"
  syncStatus :: string
  syncErrors :: "(date \<times> error) list option"

text \<open>The vehicle descriptor shared by the vehicle tables.\<close>

record vehicleDescriptor =
  year :: int
  make' :: string \<comment> \<open>the column \<open>make\<close>\<close>
  model :: string
  submodel :: "string option"
  engine :: "string option"
  engineSize :: "string option"
  fuelType :: "string option"
  transmission :: "string option"
  driveType :: "string option"
  bodyStyle :: "string option"

record turn14Vehicle = vehicleDescriptor +
  turn14VehicleId :: "string option"
  turn14MmyId :: "string option"

record turn14VehicleCompatibility = turn14Vehicle +
  ce_shop :: string
  productId :: nat
  ce_notes :: "string option"
  ce_restrictions :: "string option"
  isUniversal :: bool

record turn14VehicleDatabase = turn14Vehicle +
  vd_isActive :: bool

record customerVehicleGarage =
  g_id :: nat
  g_shop :: string
  customerId :: string
  customerEmail :: "string option"
  g_name :: "string option"
  isDefault :: bool
  maxVehicles :: int

record customerVehicle = turn14Vehicle +
  cv_id :: nat
  cv_shop :: string
  garageId :: nat
  nickname :: "string option"
  color :: "string option"
  mileage :: "int option"
  vin :: "string option"
  licensePlate :: "string option"
  isPrimary :: bool
  cv_isActive :: bool

record vehicleMaintenanceReminder =
  r_shop :: string
  vehicleId :: nat
  r_type :: string
  title :: string
  description :: "string option"
  intervalType :: string
  intervalMileage :: "int option"
  intervalMonths :: "int option"

text \<open>
  What the storefront has been asked to write: the calls of the storefront API that
  returned without throwing, oldest first.
\<close>

datatype storefrontCall =
    InventoryAdjust string int \<comment> \<open>inventory item id, \<open>available_adjustment\<close>\<close>
  | VariantSave string int \<comment> \<open>variant id, the price in hundredths (\<open>price.toFixed(2)\<close>)\<close>
  | ProductSave string int string \<comment> \<open>sku, price in hundredths, status\<close>

text \<open>The result object of a batch operation and the job ledger.\<close>

datatype syncError =
    SkuError string error \<comment> \<open>\<open>{ sku, error: error.message }\<close>\<close>
  | BrandError string error \<comment> \<open>\<open>{ brand, error: error.message }\<close>\<close>

record syncResult =
  totalItems :: nat
  processedItems :: nat
  successItems :: nat
  failedItems :: nat
  errors :: "syncError list"

datatype syncResults =
    Batch syncResult
  | Full nat nat nat nat syncResult syncResult syncResult
    \<comment> \<open>the summed counts, then \<open>inventory\<close>, \<open>pricing\<close>, \<open>newProducts\<close>\<close>

record syncSettings =
  maxNewProducts :: "nat option"
  defaultMarkup :: "number option"

record turn14SyncSchedule =
  s_id :: nat
  s_shop :: string
  s_name :: string
  s_syncType :: string
  frequency :: string
  schedule :: "string option"
  s_isActive :: bool
  lastRun :: "date option"
  nextRun :: "date option"
  s_syncSettings :: "syncSettings option" \<comment> \<open>the JSON text, parsed\<close>

record turn14SyncJob =
  j_id :: nat
  j_shop :: string
  scheduleId :: "nat option"
  j_syncType :: string
  status :: string
  startTime :: "date option"
  endTime :: "date option"
  j_totalItems :: nat
  j_processedItems :: nat
  j_successItems :: nat
  j_failedItems :: nat
  errorMessage :: "error option"
  results :: "syncResults option"

record world =
  configs :: "turn14Config list"
  products :: "turn14ImportedProduct list"
  compatibility :: "turn14VehicleCompatibility list"
  vehicleDatabase :: "turn14VehicleDatabase list"
  garages :: "customerVehicleGarage list"
  vehicles :: "customerVehicle list"
  reminders :: "vehicleMaintenanceReminder list"
  schedules :: "turn14SyncSchedule list"
  jobs :: "turn14SyncJob list"
  storefront :: "storefrontCall list"
  nextId :: nat

definition emptyWorld :: world where
  "emptyWorld = \<lparr>configs = [], products = [], compatibility = [], vehicleDatabase = [],
     garages = [], vehicles = [], reminders = [], schedules = [], jobs = [],
     storefront = [], nextId = 0\<rparr>"

section \<open>The collaborators\<close>

text \<open>
  The distributor's API client (\<open>Turn14ApiService\<close>) and the storefront's admin API are
  not part of the repository. Each of their methods is a field of \<open>env\<close>: what the call
  returns, or the error it throws. A response whose \<open>items\<close> are missing (or that is
  itself \<open>null\<close>) is \<open>None\<close>.
\<close>

record inventoryItem =
  inventory_quantity :: "int option"

record pricingItem =
  price :: "number option"

record turn14Product =
  t_id :: string \<comment> \<open>the distributor's SKU\<close>
  item_name :: string
  brand_name :: "string option"
  category :: "string option"
  t_price :: number
  t_inventory_quantity :: "int option"

record compatibilityItem =
  i_year :: int
  i_make :: string
  i_model :: string
  i_submodel :: "string option"
  i_engine :: "string option"
  engine_size :: "string option"
  fuel_type :: "string option"
  i_transmission :: "string option"
  drive_type :: "string option"
  body_style :: "string option"
  vehicle_id :: "string option"
  mmy_id :: "string option"
  i_notes :: "string option"
  i_restrictions :: "string option"
  is_universal :: "bool option"

record shopifyVariant =
  inventory_item_id :: "string option"
  sv_inventory_quantity :: "int option"

record shopifyProduct =
  sp_id :: string
  sp_variantId :: "string option" \<comment> \<open>\<open>variants?.[0]?.id\<close>\<close>

record env =
  authenticate :: "string \<Rightarrow> string \<Rightarrow> string \<Rightarrow> error option"
  getItemInventory :: "string \<Rightarrow> error + inventoryItem list option"
  getItemPricing :: "string \<Rightarrow> error + pricingItem list option"
  getItemsByBrand :: "string \<Rightarrow> nat \<Rightarrow> error + turn14Product list option"
  getItemCompatibility :: "string \<Rightarrow> error + compatibilityItem list option"
  variantFind :: "string \<Rightarrow> error + shopifyVariant option"
  inventoryLevelAdjust :: "string \<Rightarrow> int \<Rightarrow> error option"
  variantSave :: "string \<Rightarrow> int \<Rightarrow> error option"
  productSave :: "turn14Product \<Rightarrow> int \<Rightarrow> string \<Rightarrow> error + shopifyProduct"

section \<open>Store operations\<close>

text \<open>
  An operation takes the world and returns what it returns or throws, with the world it
  leaves. The store throws where its schema says so: an update of a row that is not
  there, an insert that a unique index rejects.
\<close>

definition getTurn14Config :: "string \<Rightarrow> world \<Rightarrow> error + turn14Config" where
  "getTurn14Config shop w =
     (case find (\<lambda>c. c_shop c = shop) (configs w) of
        None \<Rightarrow> Inl ConfigNotFound
      | Some config \<Rightarrow> Inr config)"

definition updateProduct ::
  "nat \<Rightarrow> (turn14ImportedProduct \<Rightarrow> turn14ImportedProduct) \<Rightarrow> world \<Rightarrow> error option \<times> world" where
  \<comment> \<open>\<open>prisma.turn14ImportedProduct.update({ where: { id }, data })\<close>\<close>
  "updateProduct pid f w =
     (if list_ex (\<lambda>p. p_id p = pid) (products w)
      then (None, w\<lparr>products := map (\<lambda>p. if p_id p = pid then f p else p) (products w)\<rparr>)
      else (Some RecordNotFound, w))"

definition createProduct ::
  "(nat \<Rightarrow> turn14ImportedProduct) \<Rightarrow> world \<Rightarrow> error option \<times> world" where
  \<comment> \<open>\<open>prisma.turn14ImportedProduct.create\<close>, under \<open>@@unique([shop, turn14Sku])\<close>\<close>
  "createProduct mk w =
     (let p = mk (nextId w)
      in if list_ex (\<lambda>q. p_shop q = p_shop p \<and> turn14Sku q = turn14Sku p) (products w)
         then (Some UniqueConstraint, w)
         else (None, w\<lparr>products := products w @ [p], nextId := Suc (nextId w)\<rparr>))"

definition createCompatibility ::
  "turn14VehicleCompatibility \<Rightarrow> world \<Rightarrow> error option \<times> world" where
  \<comment> \<open>\<open>prisma.turn14VehicleCompatibility.create\<close>, under
      \<open>@@unique([productId, year, make, model, submodel])\<close>; the store is SQLite, where a
      \<open>NULL\<close> submodel never collides\<close>
  "createCompatibility c w =
     (if list_ex (\<lambda>d. productId d = productId c \<and> year d = year c \<and> make' d = make' c
                       \<and> model d = model c \<and> submodel c \<noteq> None
                       \<and> submodel d = submodel c) (compatibility w)
      then (Some UniqueConstraint, w)
      else (None, w\<lparr>compatibility := compatibility w @ [c]\<rparr>))"


section \<open>Garage service: \<open>VehicleGarageService.checkProductCompatibility\<close>\<close>

record compatibilityResult =
  compatible :: bool
  res_compatibility :: "turn14VehicleCompatibility option"
  res_isUniversal :: "bool option"
  res_notes :: "string option"
  res_restrictions :: "string option"
  reason :: "string option"

definition productHasSku :: "world \<Rightarrow> nat \<Rightarrow> string \<Rightarrow> bool" where
  \<comment> \<open>the relation filter \<open>product: { turn14Sku: turn14Sku }\<close> on a compatibility row\<close>
  "productHasSku w pid sku = list_ex (\<lambda>p. p_id p = pid \<and> turn14Sku p = sku) (products w)"

definition checkProductCompatibility ::
  "string \<Rightarrow> nat \<Rightarrow> string \<Rightarrow> world \<Rightarrow> compatibilityResult" where
  "checkProductCompatibility shop vid sku w =
     (case find (\<lambda>v. cv_id v = vid) (vehicles w) of
        None \<Rightarrow>
          \<lparr>compatible = False, res_compatibility = None, res_isUniversal = None,
           res_notes = None, res_restrictions = None, reason = Some ''Vehicle not found''\<rparr>
      | Some vehicle \<Rightarrow>
          (case find (\<lambda>c. ce_shop c = shop \<and> productHasSku w (productId c) sku
                          \<and> year c = year vehicle \<and> make' c = make' vehicle
                          \<and> model c = model vehicle
                          \<and> (if truthy_string (submodel vehicle)
                              then submodel c = submodel vehicle else True))
                 (compatibility w) of
             Some c \<Rightarrow>
               \<lparr>compatible = True, res_compatibility = Some c, res_isUniversal = None,
                res_notes = ce_notes c, res_restrictions = ce_restrictions c, reason = None\<rparr>
           | None \<Rightarrow>
               (case find (\<lambda>c. ce_shop c = shop \<and> productHasSku w (productId c) sku
                               \<and> isUniversal c)
                      (compatibility w) of
                  Some u \<Rightarrow>
                    \<lparr>compatible = True, res_compatibility = Some u,
                     res_isUniversal = Some True, res_notes = ce_notes u,
                     res_restrictions = None, reason = None\<rparr>
                | None \<Rightarrow>
                    \<lparr>compatible = False, res_compatibility = None, res_isUniversal = None,
                     res_notes = None, res_restrictions = None,
                     reason = Some ''No compatibility data found''\<rparr>)))"

text \<open>
  The claim's words: an edge of the shop for the SKU; an exact edge for a vehicle; a
  universal edge.
\<close>

definition edgeForSku :: "world \<Rightarrow> string \<Rightarrow> string \<Rightarrow> turn14VehicleCompatibility \<Rightarrow> bool" where
  "edgeForSku w shop sku c \<longleftrightarrow>
     c \<in> set (compatibility w) \<and> ce_shop c = shop
     \<and> (\<exists>p \<in> set (products w). p_id p = productId c \<and> turn14Sku p = sku)"

definition exactEdge :: "customerVehicle \<Rightarrow> turn14VehicleCompatibility \<Rightarrow> bool" where
  "exactEdge v c \<longleftrightarrow>
     year c = year v \<and> make' c = make' v \<and> model c = model v
     \<and> (truthy_string (submodel v) \<longrightarrow> submodel c = submodel v)"

section \<open>Scheduler: \<open>SyncScheduleManager.calculateNextRun\<close>\<close>

definition calculateNextRun :: "zone \<Rightarrow> date \<Rightarrow> string \<Rightarrow> string option \<Rightarrow> date option" where
  \<comment> \<open>the cron expression is read and ignored, as in the source\<close>
  "calculateNextRun z now freq cronSchedule =
     (if freq = ''hourly'' then Some (now + 60 * 60 * 1000)
      else if freq = ''daily'' then Some (setHours z 2 0 0 0 (addDays z 1 now))
      else if freq = ''weekly'' then Some (setHours z 2 0 0 0 (addDays z 7 now))
      else None)"

section \<open>Sync engine: \<open>SyncEngine\<close>\<close>

definition updateShopifyInventory ::
  "env \<Rightarrow> string \<Rightarrow> string option \<Rightarrow> int \<Rightarrow> world \<Rightarrow> error option \<times> world" where
  "updateShopifyInventory env pid variantId quantity w =
     (case variantId of
        None \<Rightarrow> (None, w)
      | Some vid \<Rightarrow>
          if vid = [] then (None, w)
          else (case variantFind env vid of
                  Inl e \<Rightarrow> (Some e, w)
                | Inr None \<Rightarrow> (None, w)
                | Inr (Some variant) \<Rightarrow>
                    (case inventory_item_id variant of
                       None \<Rightarrow> (None, w)
                     | Some item \<Rightarrow>
                         if item = [] then (None, w)
                         else (let adjustment = quantity
                                     - (case sv_inventory_quantity variant of
                                          None \<Rightarrow> 0 | Some q \<Rightarrow> q)
                               in case inventoryLevelAdjust env item adjustment of
                                    Some e \<Rightarrow> (Some e, w)
                                  | None \<Rightarrow>
                                      (None, w\<lparr>storefront := storefront w
                                                 @ [InventoryAdjust item adjustment]\<rparr>)))))"

definition updateShopifyPricing ::
  "env \<Rightarrow> string \<Rightarrow> string option \<Rightarrow> number \<Rightarrow> world \<Rightarrow> error option \<times> world" where
  "updateShopifyPricing env pid variantId p w =
     (case variantId of
        None \<Rightarrow> (None, w)
      | Some vid \<Rightarrow>
          if vid = [] then (None, w)
          else (case variantSave env vid (toFixed2 p) of
                  Some e \<Rightarrow> (Some e, w)
                | None \<Rightarrow> (None, w\<lparr>storefront := storefront w @ [VariantSave vid (toFixed2 p)]\<rparr>)))"

definition importProductToShopify ::
  "env \<Rightarrow> turn14Product \<Rightarrow> number \<Rightarrow> string \<Rightarrow> world \<Rightarrow> (error + shopifyProduct) \<times> world" where
  \<comment> \<open>the listing's title, description, vendor, tags and images go to the storefront and
      are not read again; the call is logged by its SKU, price and status\<close>
  "importProductToShopify env tp markup st w =
     (let finalPrice = fmul (t_price tp) (fadd 1 (fdiv markup 100))
      in case productSave env tp (toFixed2 finalPrice) st of
           Inl e \<Rightarrow> (Inl e, w)
         | Inr sp \<Rightarrow>
             (Inr sp, w\<lparr>storefront := storefront w
                          @ [ProductSave (t_id tp) (toFixed2 finalPrice) st]\<rparr>))"

text \<open>
  The body of the \<open>try\<close> block of \<open>syncInventory\<close>'s loop, for one product: the error it
  throws, if any, and the world it leaves.
\<close>

definition syncInventory_item ::
  "env \<Rightarrow> date \<Rightarrow> turn14ImportedProduct \<Rightarrow> world \<Rightarrow> error option \<times> world" where
  "syncInventory_item env now product w =
     (case getItemInventory env (turn14Sku product) of
        Inl e \<Rightarrow> (Some e, w)
      | Inr None \<Rightarrow> (None, w)
      | Inr (Some []) \<Rightarrow> (None, w)
      | Inr (Some (inventory # _)) \<Rightarrow>
          (let newQuantity = (case inventory_quantity inventory of None \<Rightarrow> 0 | Some q \<Rightarrow> q)
           in if newQuantity \<noteq> inventoryQuantity product
              then (case updateShopifyInventory env (shopifyProductId product)
                           (shopifyVariantId product) newQuantity w of
                      (Some e, w1) \<Rightarrow> (Some e, w1)
                    | (None, w1) \<Rightarrow>
                        updateProduct (p_id product)
                          (\<lambda>p. p\<lparr>inventoryQuantity := newQuantity, lastSynced := Some now,
                                 syncStatus := ''active''\<rparr>) w1)
              else (None, w)))"

text \<open>The body of the \<open>try\<close> block of \<open>syncPricing\<close>'s loop.\<close>

definition syncPricing_item ::
  "env \<Rightarrow> date \<Rightarrow> turn14ImportedProduct \<Rightarrow> world \<Rightarrow> error option \<times> world" where
  "syncPricing_item env now product w =
     (case getItemPricing env (turn14Sku product) of
        Inl e \<Rightarrow> (Some e, w)
      | Inr None \<Rightarrow> (None, w)
      | Inr (Some []) \<Rightarrow> (None, w)
      | Inr (Some (pricing # _)) \<Rightarrow>
          (let newPrice = (if truthy_number (price pricing) then price pricing
                           else originalPrice product);
               finalPrice = fmul (toNumber newPrice) (fadd 1 (fdiv (priceMarkup product) 100))
           in if newPrice \<noteq> originalPrice product \<or> Some finalPrice \<noteq> currentPrice product
              then (case updateShopifyPricing env (shopifyProductId product)
                           (shopifyVariantId product) finalPrice w of
                      (Some e, w1) \<Rightarrow> (Some e, w1)
                    | (None, w1) \<Rightarrow>
                        updateProduct (p_id product)
                          (\<lambda>p. p\<lparr>originalPrice := newPrice, currentPrice := Some finalPrice,
                                 lastSynced := Some now, syncStatus := ''active''\<rparr>) w1)
              else (None, w)))"

text \<open>
  The loop of \<open>syncInventory\<close> and of \<open>syncPricing\<close>, the same text in both but for the
  \<open>try\<close> block \<open>body\<close>: \<open>successItems++\<close> after the block; in the \<open>catch\<close>,
  \<open>failedItems++\<close>, the error pushed, and the product's row marked; \<open>processedItems++\<close>
  after both. The update in the \<open>catch\<close> is outside any \<open>try\<close>: what it throws leaves the
  loop.
\<close>

fun syncLoop ::
  "(turn14ImportedProduct \<Rightarrow> world \<Rightarrow> error option \<times> world) \<Rightarrow> date
   \<Rightarrow> turn14ImportedProduct list \<Rightarrow> syncResult \<Rightarrow> world \<Rightarrow> (error + syncResult) \<times> world" where
  "syncLoop body now [] r w = (Inr r, w)"
| "syncLoop body now (product # rest) r w =
     (case body product w of
        (None, w1) \<Rightarrow>
          syncLoop body now rest
            (r\<lparr>successItems := successItems r + 1, processedItems := processedItems r + 1\<rparr>) w1
      | (Some e, w1) \<Rightarrow>
          (case updateProduct (p_id product)
                  (\<lambda>p. p\<lparr>syncStatus := ''error'', syncErrors := Some [(now, e)]\<rparr>) w1 of
             (Some e', w2) \<Rightarrow> (Inl e', w2)
           | (None, w2) \<Rightarrow>
               syncLoop body now rest
                 (r\<lparr>failedItems := failedItems r + 1,
                    errors := errors r @ [SkuError (turn14Sku product) e],
                    processedItems := processedItems r + 1\<rparr>) w2))"

definition activeProducts :: "string \<Rightarrow> world \<Rightarrow> turn14ImportedProduct list" where
  \<comment> \<open>\<open>findMany({ where: { shop, syncStatus: "active" } })\<close>\<close>
  "activeProducts shop w = filter (\<lambda>p. p_shop p = shop \<and> syncStatus p = ''active'') (products w)"

definition startResult :: "nat \<Rightarrow> syncResult" where
  "startResult n = \<lparr>totalItems = n, processedItems = 0, successItems = 0, failedItems = 0,
     errors = []\<rparr>"

definition syncInventory ::
  "env \<Rightarrow> string \<Rightarrow> date \<Rightarrow> world \<Rightarrow> (error + syncResult) \<times> world" where
  "syncInventory env shop now w =
     (case getTurn14Config shop w of
        Inl e \<Rightarrow> (Inl e, w)
      | Inr config \<Rightarrow>
          (case authenticate env (apiKey config) (apiSecret config) (environment config) of
             Some e \<Rightarrow> (Inl e, w)
           | None \<Rightarrow>
               (let importedProducts = activeProducts shop w
                in syncLoop (syncInventory_item env now) now importedProducts
                     (startResult (length importedProducts)) w)))"

definition syncPricing ::
  "env \<Rightarrow> string \<Rightarrow> date \<Rightarrow> world \<Rightarrow> (error + syncResult) \<times> world" where
  "syncPricing env shop now w =
     (case getTurn14Config shop w of
        Inl e \<Rightarrow> (Inl e, w)
      | Inr config \<Rightarrow>
          (case authenticate env (apiKey config) (apiSecret config) (environment config) of
             Some e \<Rightarrow> (Inl e, w)
           | None \<Rightarrow>
               (let importedProducts = activeProducts shop w
                in syncLoop (syncPricing_item env now) now importedProducts
                     (startResult (length importedProducts)) w)))"

text \<open>
  \<open>syncNewProducts\<close>. The \<open>try\<close> block for one new item: the listing is created first,
  then the product is tracked.
\<close>

definition importNewProduct ::
  "env \<Rightarrow> string \<Rightarrow> syncSettings \<Rightarrow> date \<Rightarrow> turn14Product \<Rightarrow> world \<Rightarrow> error option \<times> world" where
  "importNewProduct env shop settings now tp w =
     (let markup = toNumber (defaultMarkup settings)
      in case importProductToShopify env tp markup ''draft'' w of
           (Inl e, w1) \<Rightarrow> (Some e, w1)
         | (Inr sp, w1) \<Rightarrow>
             createProduct
               (\<lambda>i. \<lparr>p_id = i, p_shop = shop, turn14Sku = t_id tp,
                     shopifyProductId = sp_id sp, shopifyVariantId = sp_variantId sp,
                     turn14Brand = brand_name tp, turn14Category = category tp,
                     originalPrice = Some (t_price tp),
                     currentPrice = Some (fmul (t_price tp) (fadd 1 (fdiv markup 100))),
                     priceMarkup = markup,
                     inventoryQuantity =
                       (case t_inventory_quantity tp of None \<Rightarrow> 0 | Some q \<Rightarrow> q),
                     lastSynced = Some now, syncStatus = ''active'', syncErrors = None\<rparr>)
               w1)"

fun newProducts_items ::
  "env \<Rightarrow> string \<Rightarrow> syncSettings \<Rightarrow> date \<Rightarrow> string set \<Rightarrow> turn14Product list
   \<Rightarrow> syncResult \<Rightarrow> world \<Rightarrow> syncResult \<times> world" where
  "newProducts_items env shop settings now existingSKUs [] r w = (r, w)"
| "newProducts_items env shop settings now existingSKUs (tp # rest) r w =
     (if t_id tp \<in> existingSKUs
      then newProducts_items env shop settings now existingSKUs rest
             (r\<lparr>processedItems := processedItems r + 1\<rparr>) w
      else (case importNewProduct env shop settings now tp w of
              (None, w1) \<Rightarrow>
                newProducts_items env shop settings now existingSKUs rest
                  (r\<lparr>successItems := successItems r + 1,
                     processedItems := processedItems r + 1\<rparr>) w1
            | (Some e, w1) \<Rightarrow>
                newProducts_items env shop settings now existingSKUs rest
                  (r\<lparr>failedItems := failedItems r + 1,
                     errors := errors r @ [SkuError (t_id tp) e],
                     processedItems := processedItems r + 1\<rparr>) w1))"

definition pageSize :: "syncSettings \<Rightarrow> nat" where
  \<comment> \<open>\<open>settings.maxNewProducts || 50\<close>\<close>
  "pageSize settings =
     (case maxNewProducts settings of None \<Rightarrow> 50 | Some n \<Rightarrow> if n = 0 then 50 else n)"

fun newProducts_brands ::
  "env \<Rightarrow> string \<Rightarrow> syncSettings \<Rightarrow> date \<Rightarrow> string set \<Rightarrow> string list
   \<Rightarrow> syncResult \<Rightarrow> world \<Rightarrow> syncResult \<times> world" where
  "newProducts_brands env shop settings now existingSKUs [] r w = (r, w)"
| "newProducts_brands env shop settings now existingSKUs (brandId # rest) r w =
     (case getItemsByBrand env brandId (pageSize settings) of
        Inl e \<Rightarrow>
          newProducts_brands env shop settings now existingSKUs rest
            (r\<lparr>errors := errors r @ [BrandError brandId e]\<rparr>) w
      | Inr None \<Rightarrow> newProducts_brands env shop settings now existingSKUs rest r w
      | Inr (Some items) \<Rightarrow>
          (case newProducts_items env shop settings now existingSKUs items
                  (r\<lparr>totalItems := totalItems r + length items\<rparr>) w of
             (r1, w1) \<Rightarrow> newProducts_brands env shop settings now existingSKUs rest r1 w1))"

definition existingSKUs :: "string \<Rightarrow> world \<Rightarrow> string set" where
  \<comment> \<open>\<open>new Set(existingProducts.map(p => p.turn14Sku))\<close> over the shop's products\<close>
  "existingSKUs shop w = set (map turn14Sku (filter (\<lambda>p. p_shop p = shop) (products w)))"

definition syncNewProducts ::
  "env \<Rightarrow> string \<Rightarrow> syncSettings \<Rightarrow> date \<Rightarrow> world \<Rightarrow> (error + syncResult) \<times> world" where
  "syncNewProducts env shop settings now w =
     (case getTurn14Config shop w of
        Inl e \<Rightarrow> (Inl e, w)
      | Inr config \<Rightarrow>
          (case authenticate env (apiKey config) (apiSecret config) (environment config) of
             Some e \<Rightarrow> (Inl e, w)
           | None \<Rightarrow>
               (let brands = (case selectedBrands config of None \<Rightarrow> [] | Some bs \<Rightarrow> bs)
                in if brands = [] then (Inl NoBrandsSelected, w)
                   else (case newProducts_brands env shop settings now (existingSKUs shop w)
                                brands (startResult 0) w of
                           (r, w1) \<Rightarrow> (Inr r, w1)))))"

definition fullSync ::
  "env \<Rightarrow> string \<Rightarrow> syncSettings \<Rightarrow> date \<Rightarrow> world \<Rightarrow> (error + syncResults) \<times> world" where
  "fullSync env shop settings now w =
     (case syncInventory env shop now w of
        (Inl e, w1) \<Rightarrow> (Inl e, w1)
      | (Inr inventoryResults, w1) \<Rightarrow>
          (case syncPricing env shop now w1 of
             (Inl e, w2) \<Rightarrow> (Inl e, w2)
           | (Inr pricingResults, w2) \<Rightarrow>
               (case syncNewProducts env shop settings now w2 of
                  (Inl e, w3) \<Rightarrow> (Inl e, w3)
                | (Inr newProductsResults, w3) \<Rightarrow>
                    (Inr (Full
                       (totalItems inventoryResults + totalItems pricingResults
                          + totalItems newProductsResults)
                       (processedItems inventoryResults + processedItems pricingResults
                          + processedItems newProductsResults)
                       (successItems inventoryResults + successItems pricingResults
                          + successItems newProductsResults)
                       (failedItems inventoryResults + failedItems pricingResults
                          + failedItems newProductsResults)
                       inventoryResults pricingResults newProductsResults), w3))))"

text \<open>The job ledger around a sync: \<open>runSync\<close>.\<close>

definition createSyncJob ::
  "string \<Rightarrow> string \<Rightarrow> nat option \<Rightarrow> world \<Rightarrow> turn14SyncJob \<times> world" where
  "createSyncJob shop syncType sid w =
     (let job = \<lparr>j_id = nextId w, j_shop = shop, scheduleId = sid, j_syncType = syncType,
                  status = ''pending'', startTime = None, endTime = None, j_totalItems = 0,
                  j_processedItems = 0, j_successItems = 0, j_failedItems = 0,
                  errorMessage = None, results = None\<rparr>
      in (job, w\<lparr>jobs := jobs w @ [job], nextId := Suc (nextId w)\<rparr>))"

fun resultCounts :: "syncResults \<Rightarrow> nat \<times> nat \<times> nat \<times> nat" where
  "resultCounts (Batch r) = (totalItems r, processedItems r, successItems r, failedItems r)"
| "resultCounts (Full t p s f _ _ _) = (t, p, s, f)"

text \<open>
  The \<open>data\<close> objects that \<open>runSync\<close> passes to \<open>updateSyncJob\<close>, and the keys each
  carries. \<open>...results\<close> spreads the result object into the data: for a batch result
  its counts and its \<open>errors\<close> array, for a full sync its counts and the three
  sub-results. The store's client checks the keys of \<open>data\<close> against the fields of
  \<open>Turn14SyncJob\<close> before it writes, and throws on a key that is not one.
\<close>

datatype jobData =
    JobRunning date \<comment> \<open>\<open>{ status: "running", startTime }\<close>\<close>
  | JobCompleted date syncResults
    \<comment> \<open>\<open>{ status: "completed", endTime, ...results, results: JSON.stringify(results) }\<close>\<close>
  | JobFailed date error \<comment> \<open>\<open>{ status: "failed", endTime, errorMessage }\<close>\<close>

definition jobFields :: "string list" where
  \<comment> \<open>the fields of \<open>model Turn14SyncJob\<close>\<close>
  "jobFields = [''id'', ''shop'', ''scheduleId'', ''schedule'', ''syncType'', ''status'',
     ''startTime'', ''endTime'', ''totalItems'', ''processedItems'', ''successItems'',
     ''failedItems'', ''errorMessage'', ''results'', ''createdAt'']"

fun dataKeys :: "jobData \<Rightarrow> string list" where
  "dataKeys (JobRunning t) = [''status'', ''startTime'']"
| "dataKeys (JobCompleted t (Batch r)) =
     [''status'', ''endTime'', ''totalItems'', ''processedItems'', ''successItems'',
      ''failedItems'', ''errors'', ''results'']"
| "dataKeys (JobCompleted t (Full tot pr su fa ri rp rn)) =
     [''status'', ''endTime'', ''totalItems'', ''processedItems'', ''successItems'',
      ''failedItems'', ''inventory'', ''pricing'', ''newProducts'', ''results'']"
| "dataKeys (JobFailed t e) = [''status'', ''endTime'', ''errorMessage'']"

fun applyJobData :: "jobData \<Rightarrow> turn14SyncJob \<Rightarrow> turn14SyncJob" where
  "applyJobData (JobRunning t) j = j\<lparr>status := ''running'', startTime := Some t\<rparr>"
| "applyJobData (JobCompleted t res) j =
     (case resultCounts res of
        (tot, pr, su, fa) \<Rightarrow>
          j\<lparr>status := ''completed'', endTime := Some t, j_totalItems := tot,
            j_processedItems := pr, j_successItems := su, j_failedItems := fa,
            results := Some res\<rparr>)"
| "applyJobData (JobFailed t e) j =
     j\<lparr>status := ''failed'', endTime := Some t, errorMessage := Some e\<rparr>"

definition updateSyncJob :: "nat \<Rightarrow> jobData \<Rightarrow> world \<Rightarrow> error option \<times> world" where
  \<comment> \<open>\<open>prisma.turn14SyncJob.update({ where: { id: jobId }, data: updates })\<close>\<close>
  "updateSyncJob jid updates w =
     (case find (\<lambda>k. k \<notin> set jobFields) (dataKeys updates) of
        Some k \<Rightarrow> (Some (ValidationError k), w)
      | None \<Rightarrow>
          if list_ex (\<lambda>j. j_id j = jid) (jobs w)
          then (None, w\<lparr>jobs := map (\<lambda>j. if j_id j = jid then applyJobData updates j else j)
                                 (jobs w)\<rparr>)
          else (Some RecordNotFound, w))"

definition dispatchSync ::
  "env \<Rightarrow> string \<Rightarrow> string \<Rightarrow> syncSettings \<Rightarrow> date \<Rightarrow> world \<Rightarrow> (error + syncResults) \<times> world" where
  \<comment> \<open>the \<open>switch (syncType)\<close> of \<open>runSync\<close>\<close>
  "dispatchSync env shop syncType settings now w =
     (if syncType = ''inventory''
      then (case syncInventory env shop now w of
              (Inl e, w1) \<Rightarrow> (Inl e, w1) | (Inr r, w1) \<Rightarrow> (Inr (Batch r), w1))
      else if syncType = ''pricing''
      then (case syncPricing env shop now w of
              (Inl e, w1) \<Rightarrow> (Inl e, w1) | (Inr r, w1) \<Rightarrow> (Inr (Batch r), w1))
      else if syncType = ''products''
      then (case syncNewProducts env shop settings now w of
              (Inl e, w1) \<Rightarrow> (Inl e, w1) | (Inr r, w1) \<Rightarrow> (Inr (Batch r), w1))
      else if syncType = ''full'' then fullSync env shop settings now w
      else (Inl (UnknownSyncType syncType), w))"

definition failSyncJob :: "nat \<Rightarrow> error \<Rightarrow> date \<Rightarrow> world \<Rightarrow> (error + 'a) \<times> world" where
  \<comment> \<open>the \<open>catch\<close> of \<open>runSync\<close>: the job is marked failed and the error is thrown again\<close>
  "failSyncJob jid e now w =
     (case updateSyncJob jid (JobFailed now e) w of
        (Some e', w1) \<Rightarrow> (Inl e', w1)
      | (None, w1) \<Rightarrow> (Inl e, w1))"

definition runSync ::
  "env \<Rightarrow> string \<Rightarrow> string \<Rightarrow> nat option \<Rightarrow> syncSettings \<Rightarrow> date \<Rightarrow> world
   \<Rightarrow> (error + nat \<times> syncResults) \<times> world" where
  "runSync env shop syncType sid settings now w =
     (case createSyncJob shop syncType sid w of
        (syncJob, w0) \<Rightarrow>
          (case updateSyncJob (j_id syncJob) (JobRunning now) w0 of
             (Some e, w1) \<Rightarrow> failSyncJob (j_id syncJob) e now w1
           | (None, w1) \<Rightarrow>
               (case dispatchSync env shop syncType settings now w1 of
                  (Inl e, w2) \<Rightarrow> failSyncJob (j_id syncJob) e now w2
                | (Inr res, w2) \<Rightarrow>
                    (case updateSyncJob (j_id syncJob) (JobCompleted now res) w2 of
                       (Some e, w3) \<Rightarrow> failSyncJob (j_id syncJob) e now w3
                     | (None, w3) \<Rightarrow> (Inr (j_id syncJob, res), w3)))))"

section \<open>Compatibility sync: \<open>YMMService\<close>\<close>

record compatibilitySyncResult =
  processed :: nat
  created :: nat
  updated :: nat

record bulkSyncResult =
  b_processed :: nat
  successful :: nat
  failed :: nat
  b_errors :: "syncError list"

definition initializeApi :: "env \<Rightarrow> string \<Rightarrow> world \<Rightarrow> error option" where
  "initializeApi env shop w =
     (case find (\<lambda>c. c_shop c = shop) (configs w) of
        None \<Rightarrow> Some ConfigNotFound
      | Some config \<Rightarrow> authenticate env (apiKey config) (apiSecret config) (environment config))"

definition toCompatibility ::
  "string \<Rightarrow> nat \<Rightarrow> compatibilityItem \<Rightarrow> turn14VehicleCompatibility" where
  \<comment> \<open>the \<open>data\<close> of the \<open>create\<close> call: \<open>submodel || null\<close>, \<open>is_universal || false\<close>\<close>
  "toCompatibility shop pid c =
     \<lparr>year = i_year c, make' = i_make c, model = i_model c,
      submodel = (if truthy_string (i_submodel c) then i_submodel c else None),
      engine = i_engine c, engineSize = engine_size c, fuelType = fuel_type c,
      transmission = i_transmission c, driveType = drive_type c, bodyStyle = body_style c,
      turn14VehicleId = vehicle_id c, turn14MmyId = mmy_id c,
      ce_shop = shop, productId = pid, ce_notes = i_notes c,
      ce_restrictions = i_restrictions c, isUniversal = truthy_bool (is_universal c)\<rparr>"

text \<open>
  The insert loop: a row whose \<open>create\<close> throws is logged and skipped, and counts
  neither as processed nor as created.
\<close>

fun insertCompatibility ::
  "string \<Rightarrow> nat \<Rightarrow> compatibilityItem list \<Rightarrow> compatibilitySyncResult \<Rightarrow> world
   \<Rightarrow> compatibilitySyncResult \<times> world" where
  "insertCompatibility shop pid [] r w = (r, w)"
| "insertCompatibility shop pid (c # rest) r w =
     (case createCompatibility (toCompatibility shop pid c) w of
        (None, w1) \<Rightarrow>
          insertCompatibility shop pid rest
            (r\<lparr>created := created r + 1, processed := processed r + 1\<rparr>) w1
      | (Some e, w1) \<Rightarrow> insertCompatibility shop pid rest r w1)"

definition deleteCompatibility :: "string \<Rightarrow> nat \<Rightarrow> world \<Rightarrow> world" where
  \<comment> \<open>\<open>deleteMany({ where: { shop, productId } })\<close>\<close>
  "deleteCompatibility shop pid w =
     w\<lparr>compatibility := filter (\<lambda>c. \<not> (ce_shop c = shop \<and> productId c = pid)) (compatibility w)\<rparr>"

definition syncProductCompatibility ::
  "env \<Rightarrow> string \<Rightarrow> string \<Rightarrow> world \<Rightarrow> (error + compatibilitySyncResult) \<times> world" where
  "syncProductCompatibility env shop sku w =
     (case initializeApi env shop w of
        Some e \<Rightarrow> (Inl e, w)
      | None \<Rightarrow>
          (case find (\<lambda>p. p_shop p = shop \<and> turn14Sku p = sku) (products w) of
             None \<Rightarrow> (Inl (ProductNotFound sku), w)
           | Some product \<Rightarrow>
               (case getItemCompatibility env sku of
                  Inl e \<Rightarrow> (Inl e, w)
                | Inr None \<Rightarrow> (Inr \<lparr>processed = 0, created = 0, updated = 0\<rparr>, w)
                | Inr (Some items) \<Rightarrow>
                    (case insertCompatibility shop (p_id product) items
                            \<lparr>processed = 0, created = 0, updated = 0\<rparr>
                            (deleteCompatibility shop (p_id product) w) of
                       (r, w1) \<Rightarrow> (Inr r, w1)))))"

fun bulkSync_loop ::
  "env \<Rightarrow> string \<Rightarrow> turn14ImportedProduct list \<Rightarrow> bulkSyncResult \<Rightarrow> world
   \<Rightarrow> bulkSyncResult \<times> world" where
  "bulkSync_loop env shop [] r w = (r, w)"
| "bulkSync_loop env shop (product # rest) r w =
     (case syncProductCompatibility env shop (turn14Sku product) w of
        (Inr _, w1) \<Rightarrow>
          bulkSync_loop env shop rest
            (r\<lparr>successful := successful r + 1, b_processed := b_processed r + 1\<rparr>) w1
      | (Inl e, w1) \<Rightarrow>
          bulkSync_loop env shop rest
            (r\<lparr>failed := failed r + 1,
               b_errors := b_errors r @ [SkuError (turn14Sku product) e],
               b_processed := b_processed r + 1\<rparr>) w1)"

definition bulkProducts ::
  "string \<Rightarrow> nat option \<Rightarrow> string option \<Rightarrow> world \<Rightarrow> turn14ImportedProduct list" where
  \<comment> \<open>\<open>findMany({ where, take: limit, orderBy: { createdAt: 'asc' } })\<close> with
      \<open>limit = 10\<close> by default; insertion order is creation order\<close>
  "bulkProducts shop limit brandFilter w =
     take (case limit of None \<Rightarrow> 10 | Some n \<Rightarrow> n)
       (filter (\<lambda>p. p_shop p = shop \<and> syncStatus p = ''active''
                    \<and> (if truthy_string brandFilter then turn14Brand p = brandFilter else True))
          (products w))"

definition bulkSyncCompatibility ::
  "env \<Rightarrow> string \<Rightarrow> nat option \<Rightarrow> string option \<Rightarrow> world \<Rightarrow> bulkSyncResult \<times> world" where
  "bulkSyncCompatibility env shop limit brandFilter w =
     bulkSync_loop env shop (bulkProducts shop limit brandFilter w)
       \<lparr>b_processed = 0, successful = 0, failed = 0, b_errors = []\<rparr> w"

section \<open>Scheduler: \<open>SyncScheduler\<close> and \<open>SyncScheduleManager\<close>\<close>

definition getSchedulesDue :: "date \<Rightarrow> world \<Rightarrow> turn14SyncSchedule list" where
  "getSchedulesDue now w =
     filter (\<lambda>s. s_isActive s \<and> (case nextRun s of None \<Rightarrow> False | Some t \<Rightarrow> t \<le> now))
       (schedules w)"

definition markScheduleRun :: "zone \<Rightarrow> date \<Rightarrow> nat \<Rightarrow> world \<Rightarrow> world" where
  "markScheduleRun z now sid w =
     (case find (\<lambda>s. s_id s = sid) (schedules w) of
        None \<Rightarrow> w
      | Some sch \<Rightarrow>
          w\<lparr>schedules :=
              map (\<lambda>s. if s_id s = sid
                       then s\<lparr>lastRun := Some now,
                              nextRun := calculateNextRun z now (frequency sch) (schedule sch)\<rparr>
                       else s) (schedules w)\<rparr>)"

definition createFailedJob :: "turn14SyncSchedule \<Rightarrow> error \<Rightarrow> date \<Rightarrow> world \<Rightarrow> world" where
  \<comment> \<open>the \<open>catch\<close> of \<open>runScheduledSync\<close>\<close>
  "createFailedJob sch e now w =
     w\<lparr>jobs := jobs w @
          [\<lparr>j_id = nextId w, j_shop = s_shop sch, scheduleId = Some (s_id sch),
            j_syncType = s_syncType sch, status = ''failed'', startTime = Some now,
            endTime = Some now, j_totalItems = 0, j_processedItems = 0,
            j_successItems = 0, j_failedItems = 0, errorMessage = Some e, results = None\<rparr>],
       nextId := Suc (nextId w)\<rparr>"

definition runScheduledSync ::
  "env \<Rightarrow> zone \<Rightarrow> date \<Rightarrow> turn14SyncSchedule \<Rightarrow> world \<Rightarrow> world" where
  "runScheduledSync env z now sch w =
     (case find (\<lambda>c. c_shop c = s_shop sch) (configs w) of
        None \<Rightarrow> w
      | Some shopConfig \<Rightarrow>
          (let settings = (case s_syncSettings sch of
                             None \<Rightarrow> \<lparr>maxNewProducts = None, defaultMarkup = None\<rparr>
                           | Some st \<Rightarrow> st)
           in case runSync env (s_shop sch) (s_syncType sch) (Some (s_id sch)) settings now w of
                (Inr result, w1) \<Rightarrow> markScheduleRun z now (s_id sch) w1
              | (Inl e, w1) \<Rightarrow> createFailedJob sch e now w1))"

section \<open>Garage service: vehicles\<close>

record vehicleData = vehicleDescriptor +
  in_nickname :: "string option"
  in_color :: "string option"
  in_mileage :: "int option"
  in_vin :: "string option"
  in_licensePlate :: "string option"
  in_isPrimary :: "bool option"

text \<open>
  The \<open>updateData\<close> of \<open>updateVehicle\<close>, with the fields its callers in the repository
  pass: each is absent (\<open>None\<close>) or carries the new value.
\<close>

record vehicleUpdate =
  u_nickname :: "string option option"
  u_color :: "string option option"
  u_mileage :: "int option option"
  u_isPrimary :: "bool option"

definition garageVehicles :: "nat \<Rightarrow> world \<Rightarrow> customerVehicle list" where
  \<comment> \<open>\<open>include: { vehicles }\<close>; only the length of the list is read\<close>
  "garageVehicles gid w = filter (\<lambda>v. garageId v = gid) (vehicles w)"

definition getOrCreateGarage ::
  "string \<Rightarrow> string \<Rightarrow> string option \<Rightarrow> world
   \<Rightarrow> (customerVehicleGarage \<times> customerVehicle list) \<times> world" where
  "getOrCreateGarage shop cid email w =
     (case find (\<lambda>g. g_shop g = shop \<and> customerId g = cid) (garages w) of
        Some garage \<Rightarrow> ((garage, garageVehicles (g_id garage) w), w)
      | None \<Rightarrow>
          (let garage = \<lparr>g_id = nextId w, g_shop = shop, customerId = cid,
                          customerEmail = email, g_name = Some ''My Vehicles'',
                          isDefault = True, maxVehicles = 5\<rparr>
           in ((garage, garageVehicles (g_id garage) w),
               w\<lparr>garages := garages w @ [garage], nextId := Suc (nextId w)\<rparr>)))"

definition findTurn14Vehicle ::
  "int \<Rightarrow> string \<Rightarrow> string \<Rightarrow> string option \<Rightarrow> world \<Rightarrow> turn14VehicleDatabase option" where
  "findTurn14Vehicle y mk mdl sub w =
     find (\<lambda>d. year d = y \<and> make' d = mk \<and> model d = mdl
              \<and> (if truthy_string sub then submodel d = sub else True)) (vehicleDatabase w)"

definition defaultReminders :: "string \<Rightarrow> nat \<Rightarrow> vehicleMaintenanceReminder list" where
  "defaultReminders shop vid =
     [\<lparr>r_shop = shop, vehicleId = vid, r_type = ''oil_change'', title = ''Oil Change'',
       description = Some ''Regular oil change to keep your engine running smoothly'',
       intervalType = ''both'', intervalMileage = Some 5000, intervalMonths = Some 6\<rparr>,
      \<lparr>r_shop = shop, vehicleId = vid, r_type = ''tire_rotation'', title = ''Tire Rotation'',
       description = Some ''Rotate tires for even wear and extended life'',
       intervalType = ''mileage'', intervalMileage = Some 7500, intervalMonths = None\<rparr>,
      \<lparr>r_shop = shop, vehicleId = vid, r_type = ''brake_inspection'',
       title = ''Brake Inspection'',
       description = Some ''Check brake pads, rotors, and brake fluid'',
       intervalType = ''time'', intervalMileage = None, intervalMonths = Some 12\<rparr>]"

definition createDefaultMaintenanceReminders :: "string \<Rightarrow> nat \<Rightarrow> world \<Rightarrow> world" where
  "createDefaultMaintenanceReminders shop vid w =
     w\<lparr>reminders := reminders w @ defaultReminders shop vid\<rparr>"

definition unsetPrimary :: "string \<Rightarrow> nat \<Rightarrow> nat option \<Rightarrow> world \<Rightarrow> world" where
  \<comment> \<open>\<open>updateMany({ where: { shop, garageId, isPrimary: true [, id: { not }] },
      data: { isPrimary: false } })\<close>\<close>
  "unsetPrimary shop gid except w =
     w\<lparr>vehicles :=
         map (\<lambda>v. if cv_shop v = shop \<and> garageId v = gid \<and> isPrimary v
                     \<and> (case except of None \<Rightarrow> True | Some vid \<Rightarrow> cv_id v \<noteq> vid)
                  then v\<lparr>isPrimary := False\<rparr> else v) (vehicles w)\<rparr>"

definition newVehicle ::
  "nat \<Rightarrow> string \<Rightarrow> nat \<Rightarrow> bool \<Rightarrow> vehicleData \<Rightarrow> turn14VehicleDatabase option
   \<Rightarrow> customerVehicle" where
  \<comment> \<open>the \<open>data\<close> of \<open>db.customerVehicle.create\<close> in \<open>addVehicle\<close>, with the generated id\<close>
  "newVehicle i shop gid primary vd t14 =
     \<lparr>year = year vd, make' = make' vd, model = model vd,
      submodel = submodel vd, engine = engine vd, engineSize = engineSize vd,
      fuelType = fuelType vd, transmission = transmission vd,
      driveType = driveType vd, bodyStyle = bodyStyle vd,
      turn14VehicleId = (case t14 of None \<Rightarrow> None | Some d \<Rightarrow> turn14VehicleId d),
      turn14MmyId = (case t14 of None \<Rightarrow> None | Some d \<Rightarrow> turn14MmyId d),
      cv_id = i, cv_shop = shop, garageId = gid,
      nickname = in_nickname vd, color = in_color vd, mileage = in_mileage vd,
      vin = in_vin vd, licensePlate = in_licensePlate vd,
      isPrimary = primary, cv_isActive = True\<rparr>"

definition addVehicle ::
  "string \<Rightarrow> string \<Rightarrow> vehicleData \<Rightarrow> world \<Rightarrow> (error + customerVehicle) \<times> world" where
  "addVehicle shop cid vd w =
     (case getOrCreateGarage shop cid None w of
        ((garage, gvehicles), w0) \<Rightarrow>
          if maxVehicles garage \<le> int (length gvehicles)
          then (Inl (VehicleLimitReached (maxVehicles garage)), w0)
          else
            (let primary = (length gvehicles = 0 \<or> truthy_bool (in_isPrimary vd));
                 w1 = (if primary then unsetPrimary shop (g_id garage) None w0 else w0);
                 t14 = findTurn14Vehicle (year vd) (make' vd) (model vd) (submodel vd) w1;
                 vehicle = newVehicle (nextId w1) shop (g_id garage) primary vd t14;
                 w2 = w1\<lparr>vehicles := vehicles w1 @ [vehicle], nextId := Suc (nextId w1)\<rparr>
             in (Inr vehicle, createDefaultMaintenanceReminders shop (cv_id vehicle) w2)))"

definition applyUpdate :: "vehicleUpdate \<Rightarrow> customerVehicle \<Rightarrow> customerVehicle" where
  "applyUpdate u v =
     v\<lparr>nickname := (case u_nickname u of None \<Rightarrow> nickname v | Some x \<Rightarrow> x),
       color := (case u_color u of None \<Rightarrow> color v | Some x \<Rightarrow> x),
       mileage := (case u_mileage u of None \<Rightarrow> mileage v | Some x \<Rightarrow> x),
       isPrimary := (case u_isPrimary u of None \<Rightarrow> isPrimary v | Some b \<Rightarrow> b)\<rparr>"

definition updateVehicleRow ::
  "nat \<Rightarrow> (customerVehicle \<Rightarrow> customerVehicle) \<Rightarrow> world \<Rightarrow> (error + customerVehicle) \<times> world" where
  \<comment> \<open>\<open>db.customerVehicle.update({ where: { id }, data })\<close>\<close>
  "updateVehicleRow vid f w =
     (case find (\<lambda>v. cv_id v = vid) (vehicles w) of
        None \<Rightarrow> (Inl RecordNotFound, w)
      | Some v \<Rightarrow>
          (Inr (f v), w\<lparr>vehicles := map (\<lambda>x. if cv_id x = vid then f x else x) (vehicles w)\<rparr>))"

definition updateVehicle ::
  "string \<Rightarrow> string \<Rightarrow> nat \<Rightarrow> vehicleUpdate \<Rightarrow> world \<Rightarrow> (error + customerVehicle) \<times> world" where
  "updateVehicle shop cid vid updateData w =
     (case find (\<lambda>v. cv_id v = vid \<and> cv_shop v = shop
                    \<and> list_ex (\<lambda>g. g_id g = garageId v \<and> customerId g = cid) (garages w))
             (vehicles w) of
        None \<Rightarrow> (Inl VehicleNotFound, w)
      | Some vehicle \<Rightarrow>
          updateVehicleRow vid (applyUpdate updateData)
            (if truthy_bool (u_isPrimary updateData)
             then unsetPrimary shop (garageId vehicle) (Some vid) w else w))"

text \<open>
  What the garage claims speak of: the number of primary vehicles of a garage, and the
  constraints of the schema on the garage tables (primary keys, the foreign key of a
  vehicle to its garage) together with the agreement of a vehicle's shop with its
  garage's, which every write of the service establishes.
\<close>

definition primaryCount :: "nat \<Rightarrow> world \<Rightarrow> nat" where
  "primaryCount gid w = length (filter (\<lambda>v. garageId v = gid \<and> isPrimary v) (vehicles w))"

definition garage_wf :: "world \<Rightarrow> bool" where
  "garage_wf w \<longleftrightarrow>
     distinct (map g_id (garages w)) \<and> distinct (map cv_id (vehicles w))
     \<and> list_all (\<lambda>g. g_id g < nextId w) (garages w)
     \<and> list_all (\<lambda>v. cv_id v < nextId w
                     \<and> list_ex (\<lambda>g. g_id g = garageId v \<and> g_shop g = cv_shop v) (garages w))
          (vehicles w)"

section \<open>Example data\<close>

definition exampleProduct :: "nat \<Rightarrow> string \<Rightarrow> turn14ImportedProduct" where
  "exampleProduct i sku =
     \<lparr>p_id = i, p_shop = ''parts.myshopify.com'', turn14Sku = sku,
      shopifyProductId = ''900'', shopifyVariantId = Some ''901'', turn14Brand = None,
      turn14Category = None, originalPrice = Some 10, currentPrice = Some 12,
      priceMarkup = 20, inventoryQuantity = 5, lastSynced = None,
      syncStatus = ''active'', syncErrors = None\<rparr>"

definition exampleEdge ::
  "int \<Rightarrow> string \<Rightarrow> string \<Rightarrow> string option \<Rightarrow> bool \<Rightarrow> turn14VehicleCompatibility" where
  "exampleEdge y mk mdl sub u =
     \<lparr>year = y, make' = mk, model = mdl, submodel = sub, engine = None,
      engineSize = None, fuelType = None, transmission = None, driveType = None,
      bodyStyle = None, turn14VehicleId = None, turn14MmyId = None,
      ce_shop = ''parts.myshopify.com'', productId = 1, ce_notes = None,
      ce_restrictions = None, isUniversal = u\<rparr>"

definition exampleVehicle :: "nat \<Rightarrow> nat \<Rightarrow> bool \<Rightarrow> customerVehicle" where
  "exampleVehicle i g prim =
     \<lparr>year = 2020, make' = ''Ford'', model = ''F-150'', submodel = Some ''XLT'',
      engine = None, engineSize = None, fuelType = None, transmission = None,
      driveType = None, bodyStyle = None, turn14VehicleId = None, turn14MmyId = None,
      cv_id = i, cv_shop = ''parts.myshopify.com'', garageId = g, nickname = None,
      color = None, mileage = None, vin = None, licensePlate = None, isPrimary = prim,
      cv_isActive = True\<rparr>"

definition fitmentWorld :: world where
  \<comment> \<open>one product with a universal edge stored before an exact one, and one vehicle\<close>
  "fitmentWorld = emptyWorld
     \<lparr>products := [exampleProduct 1 ''A100''],
      compatibility := [exampleEdge 0 ''Any'' ''Any'' None True,
                        exampleEdge 2020 ''Ford'' ''F-150'' (Some ''XLT'') False],
      vehicles := [exampleVehicle 7 3 True],
      nextId := 8\<rparr>"

definition fullGarageWorld :: world where
  "fullGarageWorld = emptyWorld
     \<lparr>garages := [\<lparr>g_id = 3, g_shop = ''parts.myshopify.com'', customerId = ''c-1'',
                   customerEmail = None, g_name = Some ''My Vehicles'', isDefault = True,
                   maxVehicles = 2\<rparr>],
      vehicles := [exampleVehicle 7 3 True, exampleVehicle 8 3 False],
      nextId := 9\<rparr>"

definition exampleVehicleData :: "bool \<Rightarrow> vehicleData" where
  "exampleVehicleData prim =
     \<lparr>year = 2018, make' = ''Honda'', model = ''Civic'', submodel = None, engine = None,
      engineSize = None, fuelType = None, transmission = None, driveType = None,
      bodyStyle = None, in_nickname = Some ''Daily'', in_color = None, in_mileage = None,
      in_vin = None, in_licensePlate = None, in_isPrimary = Some prim\<rparr>"

text \<open>
  The same invariant without counting: no two vehicles of a garage are both primary.
\<close>

definition onePrimary :: "world \<Rightarrow> bool" where
  "onePrimary w \<longleftrightarrow>
     (\<forall>u \<in> set (vehicles w). \<forall>v \<in> set (vehicles w).
        cv_id u \<noteq> cv_id v \<and> garageId u = garageId v \<and> isPrimary u \<longrightarrow> \<not> isPrimary v)"

definition garageWorld :: world where
  \<comment> \<open>a garage with room left, holding a primary and a second vehicle\<close>
  "garageWorld = emptyWorld
     \<lparr>garages := [\<lparr>g_id = 3, g_shop = ''parts.myshopify.com'', customerId = ''c-1'',
                   customerEmail = None, g_name = Some ''My Vehicles'', isDefault = True,
                   maxVehicles = 5\<rparr>],
      vehicles := [exampleVehicle 7 3 True, exampleVehicle 8 3 False],
      nextId := 9\<rparr>"

definition makePrimary :: vehicleUpdate where
  "makePrimary = \<lparr>u_nickname = Some None, u_color = None, u_mileage = None,
     u_isPrimary = Some True\<rparr>"

text \<open>
  Words for the compatibility claims: the key of the unique index on compatibility rows,
  the rows of one product of one shop, and example collaborators.
\<close>

definition quietEnv :: env where
  \<comment> \<open>collaborators that accept every call and report no data\<close>
  "quietEnv = \<lparr>authenticate = (\<lambda>k s e. None),
     getItemInventory = (\<lambda>sku. Inr None),
     getItemPricing = (\<lambda>sku. Inr None),
     getItemsByBrand = (\<lambda>b n. Inr None),
     getItemCompatibility = (\<lambda>sku. Inr None),
     variantFind = (\<lambda>v. Inr None),
     inventoryLevelAdjust = (\<lambda>i a. None),
     variantSave = (\<lambda>v p. None),
     productSave = (\<lambda>tp p st. Inr \<lparr>sp_id = ''900'', sp_variantId = Some ''901''\<rparr>)\<rparr>"

definition exampleConfig :: turn14Config where
  "exampleConfig = \<lparr>c_shop = ''parts.myshopify.com'', apiKey = ''key'', apiSecret = ''secret'',
     environment = ''sandbox'', selectedBrands = Some [''18'']\<rparr>"

definition exampleItem :: "string option \<Rightarrow> string option \<Rightarrow> compatibilityItem" where
  "exampleItem sub eng =
     \<lparr>i_year = 2020, i_make = ''Ford'', i_model = ''F-150'', i_submodel = sub,
      i_engine = eng, engine_size = None, fuel_type = None, i_transmission = None,
      drive_type = None, body_style = None, vehicle_id = None, mmy_id = None,
      i_notes = None, i_restrictions = None, is_universal = None\<rparr>"

definition syncedWorld :: world where
  \<comment> \<open>the fitment example with the shop's configuration\<close>
  "syncedWorld = fitmentWorld\<lparr>configs := [exampleConfig]\<rparr>"

definition compatKey :: "turn14VehicleCompatibility \<Rightarrow> int \<times> string \<times> string \<times> string option" where
  \<comment> \<open>the columns of the unique index after \<open>productId\<close>\<close>
  "compatKey c = (year c, make' c, model c, submodel c)"

definition ofProduct :: "string \<Rightarrow> nat \<Rightarrow> turn14VehicleCompatibility \<Rightarrow> bool" where
  "ofProduct shop pid c \<longleftrightarrow> ce_shop c = shop \<and> productId c = pid"

definition twoEngineItems :: "compatibilityItem list" where
  \<comment> \<open>one vehicle listed with two engines\<close>
  "twoEngineItems = [exampleItem (Some ''XLT'') (Some ''2.7L''),
                     exampleItem (Some ''XLT'') (Some ''5.0L'')]"

definition twoEngineEnv :: env where
  "twoEngineEnv = quietEnv\<lparr>getItemCompatibility := (\<lambda>sku. Inr (Some twoEngineItems))\<rparr>"

definition emptyItemsEnv :: env where
  \<comment> \<open>the distributor answers with an empty \<open>items\<close> array\<close>
  "emptyItemsEnv = quietEnv\<lparr>getItemCompatibility := (\<lambda>sku. Inr (Some []))\<rparr>"

definition twoTrimItems :: "compatibilityItem list" where
  "twoTrimItems = [exampleItem (Some ''XLT'') (Some ''2.7L''),
                   exampleItem (Some ''Lariat'') (Some ''5.0L'')]"

definition twoTrimEnv :: env where
  "twoTrimEnv = quietEnv\<lparr>getItemCompatibility := (\<lambda>sku. Inr (Some twoTrimItems))\<rparr>"

text \<open>A schedule that is due, for the scheduler claims.\<close>

definition dueSchedule :: turn14SyncSchedule where
  "dueSchedule = \<lparr>s_id = 20, s_shop = ''parts.myshopify.com'', s_name = ''Inventory Sync'',
     s_syncType = ''inventory'', frequency = ''hourly'', schedule = None, s_isActive = True,
     lastRun = None, nextRun = Some 1000, s_syncSettings = None\<rparr>"

definition dueWorld :: world where
  \<comment> \<open>a configured shop with one tracked product and one schedule that is due\<close>
  "dueWorld = emptyWorld\<lparr>configs := [exampleConfig], products := [exampleProduct 1 ''A100''],
     schedules := [dueSchedule], nextId := 21\<rparr>"

section \<open>Properties: the next run of a schedule\<close>








section \<open>Properties: fitment\<close>

lemma find_Some_witness: "find P xs = Some x \<Longrightarrow> x \<in> set xs \<and> P x"
  by (induction xs) (auto split: if_splits)

lemma productHasSku_iff:
  "productHasSku w pid sku \<longleftrightarrow> (\<exists>p \<in> set (products w). p_id p = pid \<and> turn14Sku p = sku)"
  by (simp add: productHasSku_def list_ex_iff)

text \<open>
  C1. For a vehicle that exists and any SKU, \<open>checkProductCompatibility\<close> answers
  \<open>compatible = true\<close> exactly when the shop has, for that SKU, an edge matching the
  vehicle's year, make and model (and submodel, when the vehicle has one), or has no
  such edge but a universal one; an exact edge is the one returned whenever one exists,
  the universal edge (flagged \<open>isUniversal\<close>) only when none does; otherwise the answer
  is \<open>compatible = false\<close> with a reason.
\<close>

theorem checkProductCompatibility_two_tier:
  fixes w :: world and v :: customerVehicle and shop sku :: string and vid :: nat
  assumes found: "find (\<lambda>v. cv_id v = vid) (vehicles w) = Some v"
  defines "r \<equiv> checkProductCompatibility shop vid sku w"
  defines "exact \<equiv> (\<exists>c. edgeForSku w shop sku c \<and> exactEdge v c)"
  defines "universal \<equiv> (\<exists>c. edgeForSku w shop sku c \<and> isUniversal c)"
  shows "(compatible r \<longleftrightarrow> exact \<or> (\<not> exact \<and> universal))
       \<and> (exact \<longrightarrow> (\<exists>c. res_compatibility r = Some c \<and> edgeForSku w shop sku c \<and> exactEdge v c)
                    \<and> res_isUniversal r = None)
       \<and> (\<not> exact \<and> universal \<longrightarrow>
             (\<exists>c. res_compatibility r = Some c \<and> edgeForSku w shop sku c \<and> isUniversal c)
             \<and> res_isUniversal r = Some True)
       \<and> (\<not> compatible r \<longrightarrow> reason r = Some ''No compatibility data found'')"
proof -
  let ?E = "\<lambda>c. ce_shop c = shop \<and> productHasSku w (productId c) sku
                          \<and> year c = year v \<and> make' c = make' v
                          \<and> model c = model v
                          \<and> (if truthy_string (submodel v)
                              then submodel c = submodel v else True)"
  let ?U = "\<lambda>c. ce_shop c = shop \<and> productHasSku w (productId c) sku \<and> isUniversal c"
  have E: "(\<exists>c \<in> set (compatibility w). ?E c) \<longleftrightarrow> exact"
    unfolding exact_def edgeForSku_def exactEdge_def productHasSku_iff by auto
  have U: "(\<exists>c \<in> set (compatibility w). ?U c) \<longleftrightarrow> universal"
    unfolding universal_def edgeForSku_def productHasSku_iff by auto
  show ?thesis
  proof (cases "find ?E (compatibility w)")
    case (Some c)
    then have c: "c \<in> set (compatibility w)" "?E c"
      using find_Some_witness[OF Some] by blast+
    then have ex: exact using E by blast
    have c': "edgeForSku w shop sku c \<and> exactEdge v c"
      using c unfolding edgeForSku_def exactEdge_def productHasSku_iff by auto
    have "r = \<lparr>compatible = True, res_compatibility = Some c, res_isUniversal = None,
                res_notes = ce_notes c, res_restrictions = ce_restrictions c, reason = None\<rparr>"
      unfolding r_def checkProductCompatibility_def using found Some by simp
    then show ?thesis using ex c' by auto
  next
    case None
    then have "\<not> (\<exists>c \<in> set (compatibility w). ?E c)"
      unfolding find_None_iff by blast
    then have nex: "\<not> exact" using E by blast
    show ?thesis
    proof (cases "find ?U (compatibility w)")
      case (Some u)
      then have u: "u \<in> set (compatibility w)" "?U u"
        using find_Some_witness[OF Some] by blast+
      then have un: universal using U by blast
      have u': "edgeForSku w shop sku u \<and> isUniversal u"
        using u unfolding edgeForSku_def productHasSku_iff by auto
      have "r = \<lparr>compatible = True, res_compatibility = Some u,
                     res_isUniversal = Some True, res_notes = ce_notes u,
                     res_restrictions = None, reason = None\<rparr>"
        unfolding r_def checkProductCompatibility_def using found None Some by simp
      then show ?thesis using nex un u' by auto
    next
      case None': None
      then have "\<not> (\<exists>c \<in> set (compatibility w). ?U c)"
        unfolding find_None_iff by blast
      then have nun: "\<not> universal" using U by blast
      have "r = \<lparr>compatible = False, res_compatibility = None, res_isUniversal = None,
                     res_notes = None, res_restrictions = None,
                     reason = Some ''No compatibility data found''\<rparr>"
        unfolding r_def checkProductCompatibility_def using found None None' by simp
      then show ?thesis using nex nun by auto
    qed
  qed
qed

theorem checkProductCompatibility_two_tier_witness:
  "find (\<lambda>v. cv_id v = 7) (vehicles fitmentWorld) = Some (exampleVehicle 7 3 True)
   \<and> compatible (checkProductCompatibility ''parts.myshopify.com'' 7 ''A100'' fitmentWorld)
   \<and> res_compatibility (checkProductCompatibility ''parts.myshopify.com'' 7 ''A100'' fitmentWorld)
       = Some (exampleEdge 2020 ''Ford'' ''F-150'' (Some ''XLT'') False)
   \<and> res_isUniversal (checkProductCompatibility ''parts.myshopify.com'' 7 ''A100'' fitmentWorld)
       = None"
  using checkProductCompatibility_two_tier[of 7 fitmentWorld "exampleVehicle 7 3 True"
      "''parts.myshopify.com''" "''A100''"]
  by (simp add: fitmentWorld_def emptyWorld_def checkProductCompatibility_def
      productHasSku_def truthy_string_def exampleVehicle_def exampleEdge_def
      exampleProduct_def)


section \<open>Properties: the garage\<close>

text \<open>
  C9. When the customer's garage holds at least \<open>maxVehicles\<close> vehicles, \<open>addVehicle\<close>
  throws the vehicle-limit error and leaves the whole store as it was: no vehicle,
  reminder or other row is written before the check. A garage created by
  \<open>getOrCreateGarage\<close> has the default limit of 5.
\<close>

theorem addVehicle_capacity:
  "(find (\<lambda>g. g_shop g = shop \<and> customerId g = cid) (garages w) = Some g
      \<and> maxVehicles g \<le> int (length (garageVehicles (g_id g) w))
     \<longrightarrow> addVehicle shop cid vd w = (Inl (VehicleLimitReached (maxVehicles g)), w))
   \<and> (find (\<lambda>g. g_shop g = shop \<and> customerId g = cid) (garages w) = None
     \<longrightarrow> maxVehicles (fst (fst (getOrCreateGarage shop cid email w))) = 5)"
  by (simp add: addVehicle_def getOrCreateGarage_def Let_def)

theorem addVehicle_capacity_witness:
  "find (\<lambda>g. g_shop g = ''parts.myshopify.com'' \<and> customerId g = ''c-1'') (garages fullGarageWorld)
     = Some (hd (garages fullGarageWorld))
   \<and> maxVehicles (hd (garages fullGarageWorld))
       \<le> int (length (garageVehicles (g_id (hd (garages fullGarageWorld))) fullGarageWorld))
   \<and> addVehicle ''parts.myshopify.com'' ''c-1'' (exampleVehicleData True) fullGarageWorld
       = (Inl (VehicleLimitReached 2), fullGarageWorld)"
  using addVehicle_capacity[of "''parts.myshopify.com''" "''c-1''" fullGarageWorld
      "hd (garages fullGarageWorld)" "exampleVehicleData True"]
  by (simp add: fullGarageWorld_def emptyWorld_def garageVehicles_def exampleVehicle_def)


lemma distinct_map_eq:
  "distinct (map f xs) \<Longrightarrow> x \<in> set xs \<Longrightarrow> y \<in> set xs \<Longrightarrow> f x = f y \<Longrightarrow> x = y"
  by (auto simp: distinct_map dest: inj_onD)

lemma count_le_one_iff:
  "distinct (map f xs) \<Longrightarrow>
     length (filter P xs) \<le> 1 \<longleftrightarrow> (\<forall>x \<in> set xs. \<forall>y \<in> set xs. P x \<and> P y \<longrightarrow> f x = f y)"
proof (induction xs)
  case Nil
  then show ?case by simp
next
  case (Cons a xs)
  then have fresh: "\<forall>y \<in> set xs. f a \<noteq> f y" and d: "distinct (map f xs)" by auto
  show ?case
  proof (cases "P a")
    case True
    have "length (filter P (a # xs)) \<le> 1 \<longleftrightarrow> filter P xs = []" using True by simp
    also have "\<dots> \<longleftrightarrow> (\<forall>y \<in> set xs. \<not> P y)" by (simp add: filter_empty_conv)
    also have "\<dots> \<longleftrightarrow> (\<forall>x \<in> set (a # xs). \<forall>y \<in> set (a # xs). P x \<and> P y \<longrightarrow> f x = f y)"
      using True fresh by auto
    finally show ?thesis .
  next
    case False
    then show ?thesis using Cons.IH[OF d] by auto
  qed
qed

lemma primaryCount_onePrimary:
  assumes "distinct (map cv_id (vehicles w))"
  shows "(\<forall>gid. primaryCount gid w \<le> 1) \<longleftrightarrow> onePrimary w"
proof -
  have c0: "primaryCount gid w \<le> 1 \<longleftrightarrow>
      (\<forall>u \<in> set (vehicles w). \<forall>v \<in> set (vehicles w).
         (garageId u = gid \<and> isPrimary u) \<and> (garageId v = gid \<and> isPrimary v) \<longrightarrow> cv_id u = cv_id v)"
    for gid
    unfolding primaryCount_def
    by (rule count_le_one_iff[OF assms, of "\<lambda>v. garageId v = gid \<and> isPrimary v"])
  have c: "primaryCount gid w \<le> 1 \<longleftrightarrow>
      (\<forall>u \<in> set (vehicles w). \<forall>v \<in> set (vehicles w).
         cv_id u \<noteq> cv_id v \<and> garageId u = gid \<and> garageId v = gid \<and> isPrimary u \<longrightarrow> \<not> isPrimary v)"
    for gid
    unfolding c0 by meson
  show ?thesis
  proof
    assume a: "\<forall>gid. primaryCount gid w \<le> 1"
    show "onePrimary w"
      unfolding onePrimary_def
    proof (intro ballI impI)
      fix u v
      assume uv: "u \<in> set (vehicles w)" "v \<in> set (vehicles w)"
        and h: "cv_id u \<noteq> cv_id v \<and> garageId u = garageId v \<and> isPrimary u"
      from a have "primaryCount (garageId v) w \<le> 1" ..
      from this[unfolded c, rule_format, OF uv] h show "\<not> isPrimary v" by simp
    qed
  next
    assume a: "onePrimary w"
    show "\<forall>gid. primaryCount gid w \<le> 1"
    proof
      fix gid
      show "primaryCount gid w \<le> 1"
        unfolding c
      proof (intro ballI impI)
        fix u v
        assume uv: "u \<in> set (vehicles w)" "v \<in> set (vehicles w)"
          and h: "cv_id u \<noteq> cv_id v \<and> garageId u = gid \<and> garageId v = gid \<and> isPrimary u"
        from a[unfolded onePrimary_def, rule_format, OF uv] h show "\<not> isPrimary v" by simp
      qed
    qed
  qed
qed

lemma garage_wf_shop:
  assumes "garage_wf w" "v \<in> set (vehicles w)" "g \<in> set (garages w)" "garageId v = g_id g"
  shows "cv_shop v = g_shop g"
proof -
  from assms(1,2) obtain g' where g': "g' \<in> set (garages w)" "g_id g' = garageId v"
      "g_shop g' = cv_shop v"
    unfolding garage_wf_def list_all_iff list_ex_iff by blast
  from assms(1) have "distinct (map g_id (garages w))" by (simp add: garage_wf_def)
  from distinct_map_eq[OF this g'(1) assms(3)] g'(2) assms(4) have "g' = g" by simp
  with g'(3) show ?thesis by simp
qed

lemma unsetPrimary_fields [simp]:
  "garages (unsetPrimary shop gid ex w) = garages w"
  "nextId (unsetPrimary shop gid ex w) = nextId w"
  "reminders (unsetPrimary shop gid ex w) = reminders w"
  "map cv_id (vehicles (unsetPrimary shop gid ex w)) = map cv_id (vehicles w)"
  by (simp_all add: unsetPrimary_def comp_def)

lemma unsetPrimary_mem:
  assumes "v' \<in> set (vehicles (unsetPrimary shop gid ex w))"
  obtains v where "v \<in> set (vehicles w)" "cv_id v' = cv_id v" "garageId v' = garageId v"
    "cv_shop v' = cv_shop v" "isPrimary v' \<longrightarrow> isPrimary v"
    "cv_shop v = shop \<and> garageId v = gid \<and> isPrimary v'
       \<longrightarrow> (case ex of None \<Rightarrow> False | Some vid \<Rightarrow> cv_id v = vid)"
proof -
  let ?c = "\<lambda>v. cv_shop v = shop \<and> garageId v = gid \<and> isPrimary v
                     \<and> (case ex of None \<Rightarrow> True | Some vid \<Rightarrow> cv_id v \<noteq> vid)"
  from assms obtain v where v: "v \<in> set (vehicles w)"
      and v': "v' = (if ?c v then v\<lparr>isPrimary := False\<rparr> else v)"
    unfolding unsetPrimary_def by auto
  show thesis
  proof (cases "?c v")
    case True
    with v' have "v' = v\<lparr>isPrimary := False\<rparr>" by simp
    then have "cv_id v' = cv_id v" "garageId v' = garageId v" "cv_shop v' = cv_shop v"
      "\<not> isPrimary v'" by simp_all
    with v show thesis by (intro that[of v]) simp_all
  next
    case False
    with v' have e: "v' = v" by simp
    show thesis
    proof (rule that[of v])
      show "cv_shop v = shop \<and> garageId v = gid \<and> isPrimary v'
       \<longrightarrow> (case ex of None \<Rightarrow> False | Some vid \<Rightarrow> cv_id v = vid)"
        using False e by (cases ex) auto
    qed (simp_all add: v e)
  qed
qed

lemma unsetPrimary_wf: "garage_wf w \<Longrightarrow> garage_wf (unsetPrimary shop gid ex w)"
proof -
  assume wf: "garage_wf w"
  have "list_all (\<lambda>v. cv_id v < nextId w
                     \<and> list_ex (\<lambda>g. g_id g = garageId v \<and> g_shop g = cv_shop v) (garages w))
          (vehicles (unsetPrimary shop gid ex w))"
    unfolding list_all_iff
  proof
    fix v' assume "v' \<in> set (vehicles (unsetPrimary shop gid ex w))"
    then obtain v where v: "v \<in> set (vehicles w)" "cv_id v' = cv_id v" "garageId v' = garageId v"
      "cv_shop v' = cv_shop v" by (rule unsetPrimary_mem)
    with wf show "cv_id v' < nextId w
                     \<and> list_ex (\<lambda>g. g_id g = garageId v' \<and> g_shop g = cv_shop v') (garages w)"
      unfolding garage_wf_def list_all_iff by auto
  qed
  with wf show ?thesis unfolding garage_wf_def by simp
qed

lemma unsetPrimary_onePrimary: "onePrimary w \<Longrightarrow> onePrimary (unsetPrimary shop gid ex w)"
  unfolding onePrimary_def
proof (intro ballI impI)
  fix u' v'
  assume inv: "\<forall>u\<in>set (vehicles w). \<forall>v\<in>set (vehicles w).
          cv_id u \<noteq> cv_id v \<and> garageId u = garageId v \<and> isPrimary u \<longrightarrow> \<not> isPrimary v"
    and u': "u' \<in> set (vehicles (unsetPrimary shop gid ex w))"
    and v': "v' \<in> set (vehicles (unsetPrimary shop gid ex w))"
    and h: "cv_id u' \<noteq> cv_id v' \<and> garageId u' = garageId v' \<and> isPrimary u'"
  from u' obtain u where u: "u \<in> set (vehicles w)" "cv_id u' = cv_id u" "garageId u' = garageId u"
     "isPrimary u' \<longrightarrow> isPrimary u" by (rule unsetPrimary_mem)
  from v' obtain v where v: "v \<in> set (vehicles w)" "cv_id v' = cv_id v" "garageId v' = garageId v"
     "isPrimary v' \<longrightarrow> isPrimary v" by (rule unsetPrimary_mem)
  from inv[rule_format, OF u(1) v(1)] u(2-) v(2-) h show "\<not> isPrimary v'" by simp
qed

lemma getOrCreateGarage_props:
  assumes wf: "garage_wf w" and eq: "getOrCreateGarage shop cid email w = ((g, gv), w0)"
  shows "garage_wf w0" and "vehicles w0 = vehicles w" and "g \<in> set (garages w0)"
    and "g_shop g = shop" and "gv = garageVehicles (g_id g) w"
proof -
  let ?f = "find (\<lambda>g. g_shop g = shop \<and> customerId g = cid) (garages w)"
  have "garage_wf w0 \<and> vehicles w0 = vehicles w \<and> g \<in> set (garages w0)
      \<and> g_shop g = shop \<and> gv = garageVehicles (g_id g) w"
  proof (cases ?f)
    case (Some g')
    with eq have "g = g' \<and> w0 = w \<and> gv = garageVehicles (g_id g') w"
      by (auto simp: getOrCreateGarage_def)
    with find_Some_witness[OF Some] wf show ?thesis by simp
  next
    case None
    let ?g = "\<lparr>g_id = nextId w, g_shop = shop, customerId = cid,
                          customerEmail = email, g_name = Some ''My Vehicles'',
                          isDefault = True, maxVehicles = 5\<rparr>"
    from None eq have "g = ?g \<and> w0 = w\<lparr>garages := garages w @ [?g], nextId := Suc (nextId w)\<rparr>
      \<and> gv = garageVehicles (g_id ?g) w"
      by (auto simp: getOrCreateGarage_def Let_def)
    then have g: "g = ?g" and w0: "w0 = w\<lparr>garages := garages w @ [?g], nextId := Suc (nextId w)\<rparr>"
      and gv: "gv = garageVehicles (g_id ?g) w" by blast+
    from wf have fresh: "nextId w \<notin> g_id ` set (garages w)"
      unfolding garage_wf_def list_all_iff by auto
    from wf have "garage_wf w0"
      unfolding w0 garage_wf_def list_all_iff list_ex_iff using fresh
      by (auto simp: less_Suc_eq)
    then show ?thesis using g w0 gv by simp
  qed
  then show "garage_wf w0" and "vehicles w0 = vehicles w" and "g \<in> set (garages w0)"
    and "g_shop g = shop" and "gv = garageVehicles (g_id g) w" by simp_all
qed

lemma onePrimary_cong:
  "vehicles w' = vehicles w \<Longrightarrow> onePrimary w' = onePrimary w"
  by (simp add: onePrimary_def)

lemma onePrimary_append:
  assumes one: "onePrimary w"
    and fresh: "\<forall>u \<in> set (vehicles w). cv_id u \<noteq> cv_id v"
    and alone: "isPrimary v \<longrightarrow> (\<forall>u \<in> set (vehicles w). garageId u = garageId v \<longrightarrow> \<not> isPrimary u)"
    and w': "vehicles w' = vehicles w @ [v]"
  shows "onePrimary w'"
  unfolding onePrimary_def w'
proof (intro ballI impI)
  fix a b
  assume a: "a \<in> set (vehicles w @ [v])" and b: "b \<in> set (vehicles w @ [v])"
    and h: "cv_id a \<noteq> cv_id b \<and> garageId a = garageId b \<and> isPrimary a"
  consider "a \<in> set (vehicles w)" "b \<in> set (vehicles w)"
    | "a \<in> set (vehicles w)" "b = v" | "a = v" "b \<in> set (vehicles w)" | "a = v" "b = v"
    using a b by auto
  then show "\<not> isPrimary b"
  proof cases
    case 1
    from one[unfolded onePrimary_def, rule_format, OF 1] h show ?thesis by simp
  next
    case 2
    from alone[rule_format, OF _ 2(1)] h 2(2) show ?thesis by auto
  next
    case 3
    from alone[rule_format, OF _ 3(2)] h 3(1) show ?thesis by auto
  next
    case 4
    with h show ?thesis by simp
  qed
qed

lemma garage_wf_append:
  assumes wf: "garage_wf w"
    and v: "cv_id v = nextId w" "g \<in> set (garages w)" "garageId v = g_id g" "cv_shop v = g_shop g"
    and w': "vehicles w' = vehicles w @ [v]" "garages w' = garages w" "nextId w' = Suc (nextId w)"
  shows "garage_wf w'"
proof -
  from wf have "\<forall>u \<in> set (vehicles w). cv_id u < nextId w"
    unfolding garage_wf_def list_all_iff by simp
  then have "nextId w \<notin> cv_id ` set (vehicles w)" by auto
  with wf v show ?thesis
    unfolding garage_wf_def w' list_all_iff list_ex_iff
    by (auto simp: less_Suc_eq)
qed

lemma newVehicle_sel [simp]:
  "cv_id (newVehicle i shop gid primary vd t14) = i"
  "cv_shop (newVehicle i shop gid primary vd t14) = shop"
  "garageId (newVehicle i shop gid primary vd t14) = gid"
  "isPrimary (newVehicle i shop gid primary vd t14) = primary"
  by (simp_all add: newVehicle_def)

lemma unsetPrimary_None_alone:
  assumes wf: "garage_wf w" and g: "g \<in> set (garages w)" "g_shop g = shop"
    and u': "u' \<in> set (vehicles (unsetPrimary shop (g_id g) None w))" "garageId u' = g_id g"
  shows "\<not> isPrimary u'"
proof -
  from u'(1) obtain u where u: "u \<in> set (vehicles w)" "garageId u' = garageId u"
    "cv_shop u = shop \<and> garageId u = g_id g \<and> isPrimary u'
       \<longrightarrow> (case None :: nat option of None \<Rightarrow> False | Some vid \<Rightarrow> cv_id u = vid)"
    by (rule unsetPrimary_mem)
  from garage_wf_shop[OF wf u(1) g(1)] u(2) u'(2) g(2) have "cv_shop u = shop" by simp
  with u u'(2) show ?thesis by simp
qed

lemma addVehicle_inv:
  assumes wf: "garage_wf w" and one: "onePrimary w"
  shows "garage_wf (snd (addVehicle shop cid vd w)) \<and> onePrimary (snd (addVehicle shop cid vd w))"
proof -
  obtain g gv w0 where eq: "getOrCreateGarage shop cid None w = ((g, gv), w0)"
    by (metis prod.exhaust)
  note p = getOrCreateGarage_props[OF wf eq]
  have one0: "onePrimary w0" using one onePrimary_cong[OF p(2)] by simp
  show ?thesis
  proof (cases "maxVehicles g \<le> int (length gv)")
    case True
    then have "snd (addVehicle shop cid vd w) = w0" by (simp add: addVehicle_def eq)
    with p(1) one0 show ?thesis by simp
  next
    case False
    define primary where "primary = (length gv = 0 \<or> truthy_bool (in_isPrimary vd))"
    define w1 where "w1 = (if primary then unsetPrimary shop (g_id g) None w0 else w0)"
    define t14 where "t14 = findTurn14Vehicle (year vd) (make' vd) (model vd) (submodel vd) w1"
    define vehicle where "vehicle = newVehicle (nextId w1) shop (g_id g) primary vd t14"
    define w' where "w' = snd (addVehicle shop cid vd w)"
    have w': "vehicles w' = vehicles w1 @ [vehicle]" "garages w' = garages w1"
        "nextId w' = Suc (nextId w1)"
      using False unfolding w'_def
      by (simp_all add: addVehicle_def eq Let_def primary_def w1_def t14_def vehicle_def
          createDefaultMaintenanceReminders_def)
    have wf1: "garage_wf w1" and one1: "onePrimary w1" and g1: "garages w1 = garages w0"
      using p(1) one0 by (simp_all add: w1_def unsetPrimary_wf unsetPrimary_onePrimary)
    have alone: "isPrimary vehicle \<longrightarrow>
        (\<forall>u \<in> set (vehicles w1). garageId u = garageId vehicle \<longrightarrow> \<not> isPrimary u)"
    proof (intro impI ballI)
      fix u assume "isPrimary vehicle" and u: "u \<in> set (vehicles w1)"
        and gu: "garageId u = garageId vehicle"
      then have "primary" by (simp add: vehicle_def)
      with u have "u \<in> set (vehicles (unsetPrimary shop (g_id g) None w0))" by (simp add: w1_def)
      from unsetPrimary_None_alone[OF p(1) p(3) p(4) this] gu show "\<not> isPrimary u"
        by (simp add: vehicle_def)
    qed
    from wf1 have fresh: "\<forall>u \<in> set (vehicles w1). cv_id u \<noteq> cv_id vehicle"
      unfolding garage_wf_def list_all_iff by (auto simp: vehicle_def)
    have "onePrimary w'" by (rule onePrimary_append[OF one1 fresh alone w'(1)])
    moreover have "garage_wf w'"
    proof (rule garage_wf_append[OF wf1 _ _ _ _ w'])
      show "cv_id vehicle = nextId w1" by (simp add: vehicle_def)
      show "g \<in> set (garages w1)" using p(3) g1 by simp
      show "garageId vehicle = g_id g" by (simp add: vehicle_def)
      show "cv_shop vehicle = g_shop g" using p(4) by (simp add: vehicle_def)
    qed
    ultimately show ?thesis by (simp add: w'_def)
  qed
qed

lemma applyUpdate_sel [simp]:
  "cv_id (applyUpdate u v) = cv_id v"
  "cv_shop (applyUpdate u v) = cv_shop v"
  "garageId (applyUpdate u v) = garageId v"
  "isPrimary (applyUpdate u v) = (case u_isPrimary u of None \<Rightarrow> isPrimary v | Some b \<Rightarrow> b)"
  by (simp_all add: applyUpdate_def)

lemma garage_wf_same_shop:
  assumes wf: "garage_wf w" and uv: "u \<in> set (vehicles w)" "v \<in> set (vehicles w)"
    and g: "garageId u = garageId v"
  shows "cv_shop u = cv_shop v"
proof -
  from wf uv(2) obtain gr where gr: "gr \<in> set (garages w)" "g_id gr = garageId v"
    unfolding garage_wf_def list_all_iff list_ex_iff by blast
  from garage_wf_shop[OF wf uv(1) gr(1)] garage_wf_shop[OF wf uv(2) gr(1)] gr(2) g
  show ?thesis by simp
qed

lemma garage_wf_map:
  assumes wf: "garage_wf w"
    and f: "\<And>x. cv_id (f x) = cv_id x" "\<And>x. cv_shop (f x) = cv_shop x"
      "\<And>x. garageId (f x) = garageId x"
    and w': "vehicles w' = map f (vehicles w)" "garages w' = garages w" "nextId w' = nextId w"
  shows "garage_wf w'"
proof -
  have ids: "map cv_id (map f (vehicles w)) = map cv_id (vehicles w)"
    by (simp add: f(1) comp_def)
  have "list_all (\<lambda>v. cv_id v < nextId w
                     \<and> list_ex (\<lambda>g. g_id g = garageId v \<and> g_shop g = cv_shop v) (garages w))
          (map f (vehicles w))"
    using wf unfolding garage_wf_def list_all_iff by (simp add: f)
  moreover from wf ids have "distinct (map cv_id (map f (vehicles w)))"
    unfolding garage_wf_def by (simp only:)
  ultimately show ?thesis using wf unfolding garage_wf_def w' by (simp del: map_map)
qed

lemma updateVehicle_inv:
  assumes wf: "garage_wf w" and one: "onePrimary w"
  shows "garage_wf (snd (updateVehicle shop cid vid upd w))
       \<and> onePrimary (snd (updateVehicle shop cid vid upd w))"
proof (cases "find (\<lambda>v. cv_id v = vid \<and> cv_shop v = shop
                    \<and> list_ex (\<lambda>g. g_id g = garageId v \<and> customerId g = cid) (garages w))
             (vehicles w)")
  case None
  then have "snd (updateVehicle shop cid vid upd w) = w" by (simp add: updateVehicle_def)
  with wf one show ?thesis by simp
next
  case (Some vehicle)
  from find_Some_witness[OF Some] have veh: "vehicle \<in> set (vehicles w)" "cv_id vehicle = vid"
    "cv_shop vehicle = shop" by simp_all
  define w1 where "w1 = (if truthy_bool (u_isPrimary upd)
             then unsetPrimary shop (garageId vehicle) (Some vid) w else w)"
  define f where "f = (\<lambda>x. if cv_id x = vid then applyUpdate upd x else x)"
  have wf1: "garage_wf w1" and one1: "onePrimary w1"
    using wf one by (simp_all add: w1_def unsetPrimary_wf unsetPrimary_onePrimary)
  have res: "snd (updateVehicle shop cid vid upd w) = w1
      \<or> snd (updateVehicle shop cid vid upd w) = w1\<lparr>vehicles := map f (vehicles w1)\<rparr>"
    by (cases "find (\<lambda>v. cv_id v = vid) (vehicles w1)")
       (simp_all add: updateVehicle_def Some updateVehicleRow_def w1_def f_def)
  have fprops: "cv_id (f x) = cv_id x" "cv_shop (f x) = cv_shop x"
    "garageId (f x) = garageId x" for x
    by (simp_all add: f_def)
  define w2 where "w2 = w1\<lparr>vehicles := map f (vehicles w1)\<rparr>"
  have wf2: "garage_wf w2"
    by (rule garage_wf_map[OF wf1 fprops]) (simp_all add: w2_def)
  \<comment> \<open>in \<open>w1\<close>, a primary vehicle of the updated vehicle's garage is the updated vehicle,
      when the update marks it primary\<close>
  have others: "cv_id x = vid"
    if t: "truthy_bool (u_isPrimary upd)" and x: "x \<in> set (vehicles w1)"
      "garageId x = garageId vehicle" "isPrimary x" for x
  proof -
    from x(1) t have "x \<in> set (vehicles (unsetPrimary shop (garageId vehicle) (Some vid) w))"
      by (simp add: w1_def)
    then obtain x0 where x0: "x0 \<in> set (vehicles w)" "cv_id x = cv_id x0"
      "garageId x = garageId x0"
      "cv_shop x0 = shop \<and> garageId x0 = garageId vehicle \<and> isPrimary x
         \<longrightarrow> (case Some vid of None \<Rightarrow> False | Some i \<Rightarrow> cv_id x0 = i)"
      by (rule unsetPrimary_mem)
    from x0(3) x(2) have "garageId x0 = garageId vehicle" by simp
    from garage_wf_same_shop[OF wf x0(1) veh(1) this] veh(3) have "cv_shop x0 = shop" by simp
    with x0 x \<open>garageId x0 = garageId vehicle\<close> show ?thesis by simp
  qed
  have row: "garageId y = garageId vehicle" if "y \<in> set (vehicles w1)" "cv_id y = vid" for y
  proof -
    have "\<exists>y0 \<in> set (vehicles w). cv_id y = cv_id y0 \<and> garageId y = garageId y0"
    proof (cases "truthy_bool (u_isPrimary upd)")
      case True
      with that(1) have "y \<in> set (vehicles (unsetPrimary shop (garageId vehicle) (Some vid) w))"
        by (simp add: w1_def)
      then obtain y0 where "y0 \<in> set (vehicles w)" "cv_id y = cv_id y0"
        "garageId y = garageId y0" by (rule unsetPrimary_mem)
      then show ?thesis by blast
    next
      case False
      with that(1) show ?thesis by (auto simp: w1_def)
    qed
    then obtain y0 where y0: "y0 \<in> set (vehicles w)" "cv_id y = cv_id y0"
      "garageId y = garageId y0" by blast
    from wf have "distinct (map cv_id (vehicles w))" by (simp add: garage_wf_def)
    from distinct_map_eq[OF this y0(1) veh(1)] y0(2) that(2) veh(2) have "y0 = vehicle" by simp
    with y0(3) show ?thesis by simp
  qed
  have one2: "onePrimary w2"
    unfolding onePrimary_def
  proof (intro ballI impI)
    fix a' b'
    assume a': "a' \<in> set (vehicles w2)" and b': "b' \<in> set (vehicles w2)"
      and h: "cv_id a' \<noteq> cv_id b' \<and> garageId a' = garageId b' \<and> isPrimary a'"
    from a' obtain a where a: "a \<in> set (vehicles w1)" "a' = f a" by (auto simp: w2_def)
    from b' obtain b where b: "b \<in> set (vehicles w1)" "b' = f b" by (auto simp: w2_def)
    from h a b have ne: "cv_id a \<noteq> cv_id b" and sg: "garageId a = garageId b"
      by (simp_all add: fprops)
    note inv = one1[unfolded onePrimary_def, rule_format, OF a(1) b(1)]
    show "\<not> isPrimary b'"
    proof (cases "truthy_bool (u_isPrimary upd)")
      case False
      then have shrink: "isPrimary (f x) \<longrightarrow> isPrimary x" for x
        by (cases "u_isPrimary upd") (auto simp: f_def truthy_bool_def)
      from h a shrink[of a] have "isPrimary a" by simp
      with inv ne sg have "\<not> isPrimary b" by simp
      with shrink[of b] b show ?thesis by auto
    next
      case True
      show ?thesis
      proof (cases "cv_id b = vid")
        case bv: True
        with ne have av: "cv_id a \<noteq> vid" by simp
        then have "a' = a" using a by (simp add: f_def)
        with h have pa: "isPrimary a" by simp
        from row[OF b(1) bv] sg have "garageId a = garageId vehicle" by simp
        from others[OF True a(1) this pa] av show ?thesis by simp
      next
        case bv: False
        then have bb: "b' = b" using b by (simp add: f_def)
        show ?thesis
        proof (cases "cv_id a = vid")
          case av: True
          from row[OF a(1) av] sg have gb: "garageId b = garageId vehicle" by simp
          show ?thesis
          proof
            assume "isPrimary b'"
            with bb have "isPrimary b" by simp
            from others[OF True b(1) gb this] bv show False by simp
          qed
        next
          case av: False
          then have "a' = a" using a by (simp add: f_def)
          with h have "isPrimary a" by simp
          with inv ne sg bb show ?thesis by simp
        qed
      qed
    qed
  qed
  from res show ?thesis
  proof
    assume "snd (updateVehicle shop cid vid upd w) = w1"
    with wf1 one1 show ?thesis by simp
  next
    assume "snd (updateVehicle shop cid vid upd w) = w1\<lparr>vehicles := map f (vehicles w1)\<rparr>"
    with wf2 one2 show ?thesis by (simp add: w2_def)
  qed
qed

lemma primaryCount_pos:
  "v \<in> set (vehicles w) \<Longrightarrow> isPrimary v \<Longrightarrow> 1 \<le> primaryCount (garageId v) w"
proof -
  assume "v \<in> set (vehicles w)" "isPrimary v"
  then have "v \<in> set (filter (\<lambda>u. garageId u = garageId v \<and> isPrimary u) (vehicles w))"
    by simp
  then have "0 < length (filter (\<lambda>u. garageId u = garageId v \<and> isPrimary u) (vehicles w))"
    by (rule length_pos_if_in_set)
  then show ?thesis unfolding primaryCount_def by linarith
qed

lemma addVehicle_result:
  assumes "fst (addVehicle shop cid vd w) = Inr v"
  shows "v \<in> set (vehicles (snd (addVehicle shop cid vd w)))"
    and "garageVehicles (garageId v) w = [] \<longrightarrow> isPrimary v"
proof -
  obtain g gv w0 where eq: "getOrCreateGarage shop cid None w = ((g, gv), w0)"
    by (metis prod.exhaust)
  have gv: "gv = garageVehicles (g_id g) w"
    using eq by (auto simp: getOrCreateGarage_def Let_def split: option.splits)
  have cap: "\<not> maxVehicles g \<le> int (length gv)"
    using assms by (auto simp: addVehicle_def eq)
  define primary where "primary = (length gv = 0 \<or> truthy_bool (in_isPrimary vd))"
  define w1 where "w1 = (if primary then unsetPrimary shop (g_id g) None w0 else w0)"
  define t14 where "t14 = findTurn14Vehicle (year vd) (make' vd) (model vd) (submodel vd) w1"
  have v: "v = newVehicle (nextId w1) shop (g_id g) primary vd t14"
    using assms cap
    by (simp add: addVehicle_def eq Let_def primary_def w1_def t14_def)
  have "vehicles (snd (addVehicle shop cid vd w)) = vehicles w1 @ [v]"
    using cap
    by (simp add: addVehicle_def eq Let_def primary_def w1_def t14_def v
        createDefaultMaintenanceReminders_def)
  then show "v \<in> set (vehicles (snd (addVehicle shop cid vd w)))" by simp
  show "garageVehicles (garageId v) w = [] \<longrightarrow> isPrimary v"
    by (simp add: v primary_def gv)
qed

lemma updateVehicle_result:
  assumes "fst (updateVehicle shop cid vid upd w) = Inr v"
  shows "v \<in> set (vehicles (snd (updateVehicle shop cid vid upd w)))"
proof (cases "find (\<lambda>v. cv_id v = vid \<and> cv_shop v = shop
                    \<and> list_ex (\<lambda>g. g_id g = garageId v \<and> customerId g = cid) (garages w))
             (vehicles w)")
  case None
  with assms show ?thesis by (simp add: updateVehicle_def)
next
  case (Some vehicle)
  define w1 where "w1 = (if truthy_bool (u_isPrimary upd)
             then unsetPrimary shop (garageId vehicle) (Some vid) w else w)"
  show ?thesis
  proof (cases "find (\<lambda>v. cv_id v = vid) (vehicles w1)")
    case None
    with assms Some show ?thesis by (simp add: updateVehicle_def updateVehicleRow_def w1_def)
  next
    case found: (Some x)
    from find_Some_witness[OF found] have x: "x \<in> set (vehicles w1)" "cv_id x = vid" by simp_all
    from assms Some found have v: "v = applyUpdate upd x"
      by (simp add: updateVehicle_def updateVehicleRow_def w1_def)
    have "vehicles (snd (updateVehicle shop cid vid upd w))
        = map (\<lambda>y. if cv_id y = vid then applyUpdate upd y else y) (vehicles w1)"
      using Some found by (simp add: updateVehicle_def updateVehicleRow_def w1_def)
    moreover have "v \<in> set (map (\<lambda>y. if cv_id y = vid then applyUpdate upd y else y) (vehicles w1))"
      unfolding v set_map using x by (intro image_eqI[of _ _ x]) simp_all
    ultimately show ?thesis by simp
  qed
qed

text \<open>
  C8. In a store that meets the schema's constraints on the garage tables, with at most
  one primary vehicle in every garage, \<open>addVehicle\<close> and \<open>updateVehicle\<close> leave a store
  of the same kind: every garage still has at most one primary vehicle. The same holds
  for the state between the two writes of either operation (after the \<open>updateMany\<close>
  that unsets the flag). The first vehicle of an empty garage is made primary, and a
  vehicle returned as primary is the only primary vehicle of its garage.
\<close>

theorem primary_invariant:
  assumes wf: "garage_wf w" and one: "\<forall>gid. primaryCount gid w \<le> 1"
  shows "garage_wf (snd (addVehicle shop cid vd w))
       \<and> (\<forall>gid. primaryCount gid (snd (addVehicle shop cid vd w)) \<le> 1)
       \<and> garage_wf (snd (updateVehicle shop cid vid upd w))
       \<and> (\<forall>gid. primaryCount gid (snd (updateVehicle shop cid vid upd w)) \<le> 1)
       \<and> (\<forall>gid. primaryCount gid (unsetPrimary shop g ex w) \<le> 1)
       \<and> (\<forall>v. fst (addVehicle shop cid vd w) = Inr v \<and> garageVehicles (garageId v) w = []
              \<longrightarrow> isPrimary v)
       \<and> (\<forall>v. fst (addVehicle shop cid vd w) = Inr v \<and> isPrimary v
              \<longrightarrow> primaryCount (garageId v) (snd (addVehicle shop cid vd w)) = 1)
       \<and> (\<forall>v. fst (updateVehicle shop cid vid upd w) = Inr v \<and> isPrimary v
              \<longrightarrow> primaryCount (garageId v) (snd (updateVehicle shop cid vid upd w)) = 1)"
proof -
  from wf have d: "distinct (map cv_id (vehicles w))" by (simp add: garage_wf_def)
  have one': "onePrimary w" by (rule iffD1[OF primaryCount_onePrimary[OF d] one])
  let ?a = "snd (addVehicle shop cid vd w)" and ?u = "snd (updateVehicle shop cid vid upd w)"
  from addVehicle_inv[OF wf one'] have a: "garage_wf ?a" "onePrimary ?a" by simp_all
  from updateVehicle_inv[OF wf one'] have u: "garage_wf ?u" "onePrimary ?u" by simp_all
  from a(1) have "distinct (map cv_id (vehicles ?a))" by (simp add: garage_wf_def)
  from iffD2[OF primaryCount_onePrimary[OF this] a(2)]
  have ca: "\<forall>gid. primaryCount gid ?a \<le> 1" .
  from u(1) have "distinct (map cv_id (vehicles ?u))" by (simp add: garage_wf_def)
  from iffD2[OF primaryCount_onePrimary[OF this] u(2)]
  have cu: "\<forall>gid. primaryCount gid ?u \<le> 1" .
  from unsetPrimary_wf[OF wf, of shop g ex]
  have "distinct (map cv_id (vehicles (unsetPrimary shop g ex w)))"
    unfolding garage_wf_def by (simp only:)
  from iffD2[OF primaryCount_onePrimary[OF this] unsetPrimary_onePrimary[OF one']]
  have cs: "\<forall>gid. primaryCount gid (unsetPrimary shop g ex w) \<le> 1" .
  have pa: "primaryCount (garageId v) ?a = 1"
    if "fst (addVehicle shop cid vd w) = Inr v" "isPrimary v" for v
    using primaryCount_pos[OF addVehicle_result(1)[OF that(1)] that(2)] ca[rule_format, of "garageId v"]
    by linarith
  have pu: "primaryCount (garageId v) ?u = 1"
    if "fst (updateVehicle shop cid vid upd w) = Inr v" "isPrimary v" for v
    using primaryCount_pos[OF updateVehicle_result[OF that(1)] that(2)] cu[rule_format, of "garageId v"]
    by linarith
  have fa: "isPrimary v"
    if "fst (addVehicle shop cid vd w) = Inr v" "garageVehicles (garageId v) w = []" for v
    using addVehicle_result(2)[OF that(1)] that(2) by simp
  show ?thesis
    using a(1) ca u(1) cu cs pa pu fa by (intro conjI allI impI) (simp_all only:)
qed

lemma garageWorld_one: "\<forall>gid. primaryCount gid garageWorld \<le> 1"
  by (simp add: primaryCount_def garageWorld_def emptyWorld_def exampleVehicle_def)

lemma garageWorld_wf: "garage_wf garageWorld"
  by (simp add: garage_wf_def garageWorld_def emptyWorld_def exampleVehicle_def)

theorem primary_invariant_witness:
  "garage_wf garageWorld \<and> (\<forall>gid. primaryCount gid garageWorld \<le> 1)
   \<and> map isPrimary (vehicles (snd (addVehicle ''parts.myshopify.com'' ''c-1''
         (exampleVehicleData True) garageWorld))) = [False, False, True]
   \<and> map isPrimary (vehicles (snd (updateVehicle ''parts.myshopify.com'' ''c-1'' 8
         makePrimary garageWorld))) = [False, True]
   \<and> primaryCount 3 (snd (addVehicle ''parts.myshopify.com'' ''c-1''
         (exampleVehicleData True) garageWorld)) \<le> 1
   \<and> primaryCount 3 (snd (updateVehicle ''parts.myshopify.com'' ''c-1'' 8
         makePrimary garageWorld)) \<le> 1"
proof -
  note inv = primary_invariant[OF garageWorld_wf garageWorld_one,
      of "''parts.myshopify.com''" "''c-1''" "exampleVehicleData True" 8 makePrimary 3 None]
  have add: "map isPrimary (vehicles (snd (addVehicle ''parts.myshopify.com'' ''c-1''
         (exampleVehicleData True) garageWorld))) = [False, False, True]"
    by (simp add: addVehicle_def getOrCreateGarage_def garageWorld_def emptyWorld_def
        garageVehicles_def exampleVehicle_def exampleVehicleData_def truthy_bool_def
        unsetPrimary_def Let_def createDefaultMaintenanceReminders_def)
  have upd: "map isPrimary (vehicles (snd (updateVehicle ''parts.myshopify.com'' ''c-1'' 8
         makePrimary garageWorld))) = [False, True]"
    by (simp add: updateVehicle_def updateVehicleRow_def garageWorld_def emptyWorld_def
        exampleVehicle_def makePrimary_def truthy_bool_def unsetPrimary_def)
  from inv add upd garageWorld_wf garageWorld_one show ?thesis by blast
qed


section \<open>Properties: compatibility sync\<close>

lemma createCompatibility_ok:
  assumes "\<forall>d \<in> set (compatibility w). productId d = productId c \<longrightarrow> compatKey d \<noteq> compatKey c"
  shows "createCompatibility c w = (None, w\<lparr>compatibility := compatibility w @ [c]\<rparr>)"
proof -
  have "\<not> list_ex (\<lambda>d. productId d = productId c \<and> year d = year c \<and> make' d = make' c
                       \<and> model d = model c \<and> submodel c \<noteq> None
                       \<and> submodel d = submodel c) (compatibility w)"
    unfolding list_ex_iff
  proof
    assume "\<exists>d \<in> set (compatibility w). productId d = productId c \<and> year d = year c
        \<and> make' d = make' c \<and> model d = model c \<and> submodel c \<noteq> None \<and> submodel d = submodel c"
    then obtain d where d: "d \<in> set (compatibility w)" "productId d = productId c"
      "compatKey d = compatKey c" by (auto simp: compatKey_def)
    from assms[rule_format, OF d(1)] d(2,3) show False by simp
  qed
  then show ?thesis by (simp add: createCompatibility_def)
qed

lemma toCompatibility_sel [simp]:
  "ce_shop (toCompatibility shop pid c) = shop"
  "productId (toCompatibility shop pid c) = pid"
  by (simp_all add: toCompatibility_def)

lemma insertCompatibility_shape:
  "\<exists>added. snd (insertCompatibility shop pid items r w)
       = w\<lparr>compatibility := compatibility w @ added\<rparr>
     \<and> set added \<subseteq> toCompatibility shop pid ` set items"
proof (induction items arbitrary: r w)
  case Nil
  show ?case by (intro exI[of _ "[]"]) simp
next
  case (Cons c rest)
  show ?case
  proof (cases "fst (createCompatibility (toCompatibility shop pid c) w)")
    case None
    then have step: "createCompatibility (toCompatibility shop pid c) w
        = (None, w\<lparr>compatibility := compatibility w @ [toCompatibility shop pid c]\<rparr>)"
      by (auto simp: createCompatibility_def split: if_splits)
    let ?w1 = "w\<lparr>compatibility := compatibility w @ [toCompatibility shop pid c]\<rparr>"
    let ?r1 = "r\<lparr>created := created r + 1, processed := processed r + 1\<rparr>"
    from Cons.IH[of ?r1 ?w1] obtain added where
      a: "snd (insertCompatibility shop pid rest ?r1 ?w1)
            = ?w1\<lparr>compatibility := compatibility ?w1 @ added\<rparr>"
        "set added \<subseteq> toCompatibility shop pid ` set rest" by blast
    show ?thesis
      by (intro exI[of _ "toCompatibility shop pid c # added"]) (use a step in auto)
  next
    case (Some e)
    then have step: "createCompatibility (toCompatibility shop pid c) w = (Some e, w)"
      by (auto simp: createCompatibility_def split: if_splits)
    from Cons.IH[of r w] obtain added where
      a: "snd (insertCompatibility shop pid rest r w) = w\<lparr>compatibility := compatibility w @ added\<rparr>"
        "set added \<subseteq> toCompatibility shop pid ` set rest" by blast
    show ?thesis
      by (intro exI[of _ added]) (use a step in auto)
  qed
qed

lemma insertCompatibility_all:
  assumes "distinct (map (\<lambda>c. compatKey (toCompatibility shop pid c)) items)"
    and "\<forall>d \<in> set (compatibility w). productId d = pid
           \<longrightarrow> compatKey d \<notin> (\<lambda>c. compatKey (toCompatibility shop pid c)) ` set items"
  shows "insertCompatibility shop pid items r w
       = (r\<lparr>created := created r + length items, processed := processed r + length items\<rparr>,
          w\<lparr>compatibility := compatibility w @ map (toCompatibility shop pid) items\<rparr>)"
  using assms
proof (induction items arbitrary: r w)
  case Nil
  show ?case by simp
next
  case (Cons c rest)
  let ?c = "toCompatibility shop pid c"
  let ?w1 = "w\<lparr>compatibility := compatibility w @ [?c]\<rparr>"
  let ?r1 = "r\<lparr>created := created r + 1, processed := processed r + 1\<rparr>"
  have "\<forall>d \<in> set (compatibility w). productId d = productId ?c \<longrightarrow> compatKey d \<noteq> compatKey ?c"
  proof (intro ballI impI)
    fix d assume d: "d \<in> set (compatibility w)" "productId d = productId ?c"
    from Cons.prems(2)[rule_format, OF d(1)] d(2) show "compatKey d \<noteq> compatKey ?c" by auto
  qed
  then have step: "createCompatibility ?c w = (None, ?w1)" by (rule createCompatibility_ok)
  have d1: "distinct (map (\<lambda>c. compatKey (toCompatibility shop pid c)) rest)"
    using Cons.prems(1) by simp
  have d2: "\<forall>d \<in> set (compatibility ?w1). productId d = pid
           \<longrightarrow> compatKey d \<notin> (\<lambda>c. compatKey (toCompatibility shop pid c)) ` set rest"
  proof (intro ballI impI)
    fix d assume d: "d \<in> set (compatibility ?w1)" "productId d = pid"
    then consider "d \<in> set (compatibility w)" | "d = ?c" by auto
    then show "compatKey d \<notin> (\<lambda>c. compatKey (toCompatibility shop pid c)) ` set rest"
    proof cases
      case 1
      from Cons.prems(2)[rule_format, OF 1 d(2)] show ?thesis by auto
    next
      case 2
      with Cons.prems(1) show ?thesis by auto
    qed
  qed
  show ?case
    using step Cons.IH[OF d1 d2, of ?r1] by (simp add: add.assoc)
qed

lemmas example_defs = syncedWorld_def fitmentWorld_def emptyWorld_def exampleConfig_def
  quietEnv_def exampleProduct_def exampleEdge_def exampleItem_def exampleVehicle_def

lemma initializeApi_cong:
  "configs w' = configs w \<Longrightarrow> initializeApi env shop w' = initializeApi env shop w"
  by (simp add: initializeApi_def)

lemma filter_not_ofProduct_added:
  assumes "set added \<subseteq> toCompatibility shop pid ` set items"
  shows "filter (\<lambda>c. \<not> (ce_shop c = shop \<and> productId c = pid)) added = []"
  using assms by (auto simp: filter_empty_conv)

lemma syncProductCompatibility_idem:
  "syncProductCompatibility env shop sku (snd (syncProductCompatibility env shop sku w))
     = syncProductCompatibility env shop sku w"
proof (cases "initializeApi env shop w")
  case (Some e)
  then show ?thesis by (simp add: syncProductCompatibility_def)
next
  case init: None
  show ?thesis
  proof (cases "find (\<lambda>p. p_shop p = shop \<and> turn14Sku p = sku) (products w)")
    case None
    with init show ?thesis by (simp add: syncProductCompatibility_def)
  next
    case prod: (Some product)
    show ?thesis
    proof (cases "getItemCompatibility env sku")
      case (Inl e)
      with init prod show ?thesis by (simp add: syncProductCompatibility_def)
    next
      case (Inr resp)
      show ?thesis
      proof (cases resp)
        case None
        with init prod Inr show ?thesis by (simp add: syncProductCompatibility_def)
      next
        case (Some items)
        let ?pid = "p_id product"
        let ?z = "\<lparr>processed = 0, created = 0, updated = 0\<rparr>"
        let ?d = "deleteCompatibility shop ?pid w"
        have run: "syncProductCompatibility env shop sku w
            = (Inr (fst (insertCompatibility shop ?pid items ?z ?d)),
               snd (insertCompatibility shop ?pid items ?z ?d))"
          using init prod Inr Some by (simp add: syncProductCompatibility_def split: prod.splits)
        from insertCompatibility_shape[of shop ?pid items ?z ?d] obtain added where
          a: "snd (insertCompatibility shop ?pid items ?z ?d)
                = ?d\<lparr>compatibility := compatibility ?d @ added\<rparr>"
            "set added \<subseteq> toCompatibility shop ?pid ` set items" by blast
        let ?w' = "?d\<lparr>compatibility := compatibility ?d @ added\<rparr>"
        have w': "snd (syncProductCompatibility env shop sku w) = ?w'"
          using run a(1) by simp
        have init': "initializeApi env shop ?w' = None"
          using init initializeApi_cong[of ?w' w env shop] by (simp add: deleteCompatibility_def)
        have prod': "find (\<lambda>p. p_shop p = shop \<and> turn14Sku p = sku) (products ?w') = Some product"
          using prod by (simp add: deleteCompatibility_def)
        have del: "deleteCompatibility shop ?pid ?w' = ?d"
          using filter_not_ofProduct_added[OF a(2)]
          by (simp add: deleteCompatibility_def)
        have "syncProductCompatibility env shop sku ?w'
            = (Inr (fst (insertCompatibility shop ?pid items ?z ?d)),
               snd (insertCompatibility shop ?pid items ?z ?d))"
          using init' prod' Inr Some
          by (simp add: syncProductCompatibility_def del split: prod.splits)
        with run w' show ?thesis by simp
      qed
    qed
  qed
qed

lemma insertCompatibility_created_le:
  "created (fst (insertCompatibility shop pid items r w)) \<le> created r + length items"
proof (induction items arbitrary: r w)
  case Nil
  show ?case by simp
next
  case (Cons c rest)
  obtain eo w1 where step: "createCompatibility (toCompatibility shop pid c) w = (eo, w1)"
    by (metis prod.exhaust)
  show ?case
  proof (cases eo)
    case None
    with step Cons.IH[of "r\<lparr>created := created r + 1, processed := processed r + 1\<rparr>" w1]
    show ?thesis by simp
  next
    case (Some e)
    with step Cons.IH[of r w1] show ?thesis by simp
  qed
qed

lemma insertCompatibility_none_rejected:
  assumes "created (fst (insertCompatibility shop pid items r w)) = created r + length items"
  shows "snd (insertCompatibility shop pid items r w)
       = w\<lparr>compatibility := compatibility w @ map (toCompatibility shop pid) items\<rparr>"
  using assms
proof (induction items arbitrary: r w)
  case Nil
  show ?case by simp
next
  case (Cons c rest)
  let ?c = "toCompatibility shop pid c"
  show ?case
  proof (cases "fst (createCompatibility ?c w)")
    case None
    then have step: "createCompatibility ?c w = (None, w\<lparr>compatibility := compatibility w @ [?c]\<rparr>)"
      by (auto simp: createCompatibility_def split: if_splits)
    let ?r1 = "r\<lparr>created := created r + 1, processed := processed r + 1\<rparr>"
    let ?w1 = "w\<lparr>compatibility := compatibility w @ [?c]\<rparr>"
    from Cons.prems step
    have "created (fst (insertCompatibility shop pid rest ?r1 ?w1)) = created ?r1 + length rest"
      by simp
    from Cons.IH[OF this] step show ?thesis by simp
  next
    case (Some e)
    then have step: "createCompatibility ?c w = (Some e, w)"
      by (auto simp: createCompatibility_def split: if_splits)
    from insertCompatibility_created_le[of shop pid rest r w] Cons.prems step
    show ?thesis by simp
  qed
qed

text \<open>
  C4 (amended). Running \<open>syncProductCompatibility\<close> a second time on the store left by
  a first run, with the same distributor data, returns the same result and leaves the
  same store: the operation is idempotent, whatever the first run met. When the
  configuration is valid, the product is tracked and the distributor returns a list of
  rows, the rows of other products are untouched and the product's rows afterwards are
  among the fetched ones; they are exactly the fetched rows, in order, when no insert
  is rejected (\<open>created\<close> equals the number of fetched rows). No insert is rejected, in
  particular, when the fetched rows differ pairwise in (year, make, model, submodel)
  and no compatibility row of another shop carries the product's id.
\<close>

theorem syncProductCompatibility_replaces:
  "syncProductCompatibility env shop sku (snd (syncProductCompatibility env shop sku w))
     = syncProductCompatibility env shop sku w
   \<and> (initializeApi env shop w = None
      \<and> find (\<lambda>p. p_shop p = shop \<and> turn14Sku p = sku) (products w) = Some product
      \<and> getItemCompatibility env sku = Inr (Some items)
      \<longrightarrow> filter (\<lambda>c. \<not> ofProduct shop (p_id product) c)
              (compatibility (snd (syncProductCompatibility env shop sku w)))
            = filter (\<lambda>c. \<not> ofProduct shop (p_id product) c) (compatibility w)
          \<and> set (filter (ofProduct shop (p_id product))
                   (compatibility (snd (syncProductCompatibility env shop sku w))))
              \<subseteq> toCompatibility shop (p_id product) ` set items
          \<and> (\<forall>r. fst (syncProductCompatibility env shop sku w) = Inr r
                  \<and> created r = length items
                \<longrightarrow> filter (ofProduct shop (p_id product))
                      (compatibility (snd (syncProductCompatibility env shop sku w)))
                    = map (toCompatibility shop (p_id product)) items)
          \<and> (distinct (map (\<lambda>c. compatKey (toCompatibility shop (p_id product) c)) items)
               \<and> (\<forall>d \<in> set (compatibility w). productId d = p_id product \<longrightarrow> ce_shop d = shop)
             \<longrightarrow> filter (ofProduct shop (p_id product))
                   (compatibility (snd (syncProductCompatibility env shop sku w)))
                 = map (toCompatibility shop (p_id product)) items
               \<and> fst (syncProductCompatibility env shop sku w)
                 = Inr \<lparr>processed = length items, created = length items, updated = 0\<rparr>))"
proof (intro conjI impI)
  show "syncProductCompatibility env shop sku (snd (syncProductCompatibility env shop sku w))
     = syncProductCompatibility env shop sku w"
    by (rule syncProductCompatibility_idem)
next
  let ?pid = "p_id product"
  let ?z = "\<lparr>processed = 0, created = 0, updated = 0\<rparr>"
  let ?d = "deleteCompatibility shop ?pid w"
  let ?w' = "snd (syncProductCompatibility env shop sku w)"
  assume h: "initializeApi env shop w = None
      \<and> find (\<lambda>p. p_shop p = shop \<and> turn14Sku p = sku) (products w) = Some product
      \<and> getItemCompatibility env sku = Inr (Some items)"
  then have run: "syncProductCompatibility env shop sku w
            = (Inr (fst (insertCompatibility shop ?pid items ?z ?d)),
               snd (insertCompatibility shop ?pid items ?z ?d))"
    by (simp add: syncProductCompatibility_def split: prod.splits)
  from insertCompatibility_shape[of shop ?pid items ?z ?d] obtain added where
    a: "snd (insertCompatibility shop ?pid items ?z ?d)
          = ?d\<lparr>compatibility := compatibility ?d @ added\<rparr>"
      "set added \<subseteq> toCompatibility shop ?pid ` set items" by blast
  have comp: "compatibility ?w'
      = filter (\<lambda>c. \<not> ofProduct shop ?pid c) (compatibility w) @ added"
    using run a(1) by (simp add: deleteCompatibility_def ofProduct_def)
  have ours: "filter (ofProduct shop ?pid) added = added"
    using a(2) by (auto simp: filter_id_conv ofProduct_def)
  have theirs: "filter (\<lambda>c. \<not> ofProduct shop ?pid c) added = []"
    using a(2) by (auto simp: filter_empty_conv ofProduct_def)
  show "filter (\<lambda>c. \<not> ofProduct shop ?pid c) (compatibility ?w')
            = filter (\<lambda>c. \<not> ofProduct shop ?pid c) (compatibility w)"
    by (simp add: comp theirs)
  show "set (filter (ofProduct shop ?pid) (compatibility ?w'))
              \<subseteq> toCompatibility shop ?pid ` set items"
    using a(2) by (auto simp: comp)
  have mapped: "filter (ofProduct shop ?pid) (map (toCompatibility shop ?pid) items)
        = map (toCompatibility shop ?pid) items"
    by (simp add: filter_id_conv ofProduct_def)
  show "\<forall>r. fst (syncProductCompatibility env shop sku w) = Inr r \<and> created r = length items
        \<longrightarrow> filter (ofProduct shop ?pid) (compatibility ?w')
            = map (toCompatibility shop ?pid) items"
  proof (intro allI impI)
    fix r
    assume r: "fst (syncProductCompatibility env shop sku w) = Inr r \<and> created r = length items"
    with run have "created (fst (insertCompatibility shop ?pid items ?z ?d))
        = created ?z + length items" by simp
    from insertCompatibility_none_rejected[OF this] run
    have "compatibility ?w'
        = filter (\<lambda>c. \<not> ofProduct shop ?pid c) (compatibility w)
          @ map (toCompatibility shop ?pid) items"
      by (simp add: deleteCompatibility_def ofProduct_def)
    with mapped show "filter (ofProduct shop ?pid) (compatibility ?w')
            = map (toCompatibility shop ?pid) items" by simp
  qed
  {
    assume nc: "distinct (map (\<lambda>c. compatKey (toCompatibility shop ?pid c)) items)
               \<and> (\<forall>d \<in> set (compatibility w). productId d = ?pid \<longrightarrow> ce_shop d = shop)"
    have none: "\<forall>d \<in> set (compatibility ?d). productId d = ?pid
           \<longrightarrow> compatKey d \<notin> (\<lambda>c. compatKey (toCompatibility shop ?pid c)) ` set items"
    proof (intro ballI impI)
      fix d assume d: "d \<in> set (compatibility ?d)" "productId d = ?pid"
      then have "d \<in> set (compatibility w)" "\<not> (ce_shop d = shop \<and> productId d = ?pid)"
        by (simp_all add: deleteCompatibility_def)
      with nc[THEN conjunct2, rule_format, of d] d(2) have False by simp
      then show "compatKey d \<notin> (\<lambda>c. compatKey (toCompatibility shop ?pid c)) ` set items" ..
    qed
    note all = insertCompatibility_all[OF nc[THEN conjunct1] none, of ?z]
    have "compatibility ?w'
        = filter (\<lambda>c. \<not> ofProduct shop ?pid c) (compatibility w)
          @ map (toCompatibility shop ?pid) items"
      using run all by (simp add: deleteCompatibility_def ofProduct_def)
    moreover have "filter (ofProduct shop ?pid) (map (toCompatibility shop ?pid) items)
        = map (toCompatibility shop ?pid) items"
      by (simp add: filter_id_conv ofProduct_def)
    ultimately show "filter (ofProduct shop ?pid) (compatibility ?w')
                 = map (toCompatibility shop ?pid) items"
      by simp
    show "fst (syncProductCompatibility env shop sku w)
                 = Inr \<lparr>processed = length items, created = length items, updated = 0\<rparr>"
      using run all by simp
  }
qed

lemma syncedWorld_init [simp]:
  "initializeApi (quietEnv\<lparr>getItemCompatibility := f\<rparr>) ''parts.myshopify.com'' syncedWorld = None"
  by (simp add: initializeApi_def example_defs)

lemma syncedWorld_product [simp]:
  "find (\<lambda>p. p_shop p = ''parts.myshopify.com'' \<and> turn14Sku p = ''A100'') (products syncedWorld)
     = Some (exampleProduct 1 ''A100'')"
  by (simp add: example_defs)

theorem syncProductCompatibility_replaces_witness:
  "initializeApi twoTrimEnv ''parts.myshopify.com'' syncedWorld = None
   \<and> find (\<lambda>p. p_shop p = ''parts.myshopify.com'' \<and> turn14Sku p = ''A100'') (products syncedWorld)
       = Some (exampleProduct 1 ''A100'')
   \<and> getItemCompatibility twoTrimEnv ''A100'' = Inr (Some twoTrimItems)
   \<and> compatibility (snd (syncProductCompatibility twoTrimEnv ''parts.myshopify.com'' ''A100''
         syncedWorld))
       = map (toCompatibility ''parts.myshopify.com'' 1) twoTrimItems
   \<and> fst (syncProductCompatibility twoTrimEnv ''parts.myshopify.com'' ''A100'' syncedWorld)
       = Inr \<lparr>processed = 2, created = 2, updated = 0\<rparr>"
proof -
  have fetch: "getItemCompatibility twoTrimEnv ''A100'' = Inr (Some twoTrimItems)"
    by (simp add: twoTrimEnv_def)
  have pid: "p_id (exampleProduct 1 ''A100'') = 1" by (simp add: exampleProduct_def)
  have dist: "distinct (map (\<lambda>c. compatKey (toCompatibility ''parts.myshopify.com'' 1 c)) twoTrimItems)"
    by (simp add: twoTrimItems_def compatKey_def toCompatibility_def exampleItem_def
        truthy_string_def)
  have own: "\<forall>d \<in> set (compatibility syncedWorld). productId d = 1
      \<longrightarrow> ce_shop d = ''parts.myshopify.com''"
    by (simp add: example_defs)
  have all: "filter (ofProduct ''parts.myshopify.com'' 1) (compatibility syncedWorld)
      = compatibility syncedWorld"
    by (simp add: example_defs ofProduct_def)
  have none: "filter (\<lambda>c. \<not> ofProduct ''parts.myshopify.com'' 1 c) (compatibility syncedWorld) = []"
    by (simp add: example_defs ofProduct_def)
  note t = syncProductCompatibility_replaces[of twoTrimEnv "''parts.myshopify.com''" "''A100''"
      syncedWorld "exampleProduct 1 ''A100''" twoTrimItems, unfolded pid]
  let ?w' = "snd (syncProductCompatibility twoTrimEnv ''parts.myshopify.com'' ''A100'' syncedWorld)"
  have init: "initializeApi twoTrimEnv ''parts.myshopify.com'' syncedWorld = None"
    by (simp add: twoTrimEnv_def)
  note c = t[THEN conjunct2, THEN mp, OF conjI[OF init conjI[OF syncedWorld_product fetch]]]
  note ab = c[THEN conjunct2, THEN conjunct2, THEN conjunct2, THEN mp, OF conjI[OF dist own]]
  from c[THEN conjunct1]
  have frame: "filter (\<lambda>c. \<not> ofProduct ''parts.myshopify.com'' 1 c) (compatibility ?w') = []"
    by (simp only: none)
  then have "filter (ofProduct ''parts.myshopify.com'' 1) (compatibility ?w') = compatibility ?w'"
    by (simp only: filter_empty_conv filter_id_conv not_not)
  with ab have "compatibility ?w' = map (toCompatibility ''parts.myshopify.com'' 1) twoTrimItems"
    by (simp only:)
  moreover have "length twoTrimItems = 2" by (simp add: twoTrimItems_def)
  ultimately show ?thesis using init fetch ab[THEN conjunct2] by (simp only: syncedWorld_product simp_thms)
qed

text \<open>
  C4 as stated fails: the distributor lists one vehicle (2020 Ford F-150 XLT) with two
  engines, the unique index on (productId, year, make, model, submodel) rejects the
  second insert, the loop logs and skips it, and the product is left with one row of
  the two fetched.
\<close>

theorem syncProductCompatibility_duplicate_key:
  "getItemCompatibility twoEngineEnv ''A100'' = Inr (Some twoEngineItems)
   \<and> length twoEngineItems = 2
   \<and> fst (syncProductCompatibility twoEngineEnv ''parts.myshopify.com'' ''A100'' syncedWorld)
       = Inr \<lparr>processed = 1, created = 1, updated = 0\<rparr>
   \<and> compatibility (snd (syncProductCompatibility twoEngineEnv ''parts.myshopify.com'' ''A100''
         syncedWorld))
       = [toCompatibility ''parts.myshopify.com'' 1 (exampleItem (Some ''XLT'') (Some ''2.7L''))]
   \<and> compatibility (snd (syncProductCompatibility twoEngineEnv ''parts.myshopify.com'' ''A100''
         syncedWorld))
       \<noteq> map (toCompatibility ''parts.myshopify.com'' 1) twoEngineItems"
  by (simp add: syncProductCompatibility_def twoEngineEnv_def twoEngineItems_def
      deleteCompatibility_def createCompatibility_def toCompatibility_def truthy_string_def
      truthy_bool_def initializeApi_def example_defs)

text \<open>
  C10 (amended). With a valid configuration and a tracked product: when the response
  has no \<open>items\<close> (or is \<open>null\<close>), \<open>syncProductCompatibility\<close> returns zero counts and
  leaves the store untouched; when \<open>items\<close> is an empty array, it returns zero counts
  after deleting every compatibility row of the product.
\<close>

theorem syncProductCompatibility_no_items:
  assumes init: "initializeApi env shop w = None"
    and prod: "find (\<lambda>p. p_shop p = shop \<and> turn14Sku p = sku) (products w) = Some product"
  shows "(getItemCompatibility env sku = Inr None
            \<longrightarrow> syncProductCompatibility env shop sku w
                = (Inr \<lparr>processed = 0, created = 0, updated = 0\<rparr>, w))
       \<and> (getItemCompatibility env sku = Inr (Some [])
            \<longrightarrow> syncProductCompatibility env shop sku w
                = (Inr \<lparr>processed = 0, created = 0, updated = 0\<rparr>,
                   w\<lparr>compatibility := filter (\<lambda>c. \<not> ofProduct shop (p_id product) c)
                                        (compatibility w)\<rparr>))"
proof (intro conjI impI)
  assume "getItemCompatibility env sku = Inr None"
  with init prod show "syncProductCompatibility env shop sku w
                = (Inr \<lparr>processed = 0, created = 0, updated = 0\<rparr>, w)"
    by (simp add: syncProductCompatibility_def)
next
  assume "getItemCompatibility env sku = Inr (Some [])"
  with init prod show "syncProductCompatibility env shop sku w
                = (Inr \<lparr>processed = 0, created = 0, updated = 0\<rparr>,
                   w\<lparr>compatibility := filter (\<lambda>c. \<not> ofProduct shop (p_id product) c)
                                        (compatibility w)\<rparr>)"
    by (simp add: syncProductCompatibility_def deleteCompatibility_def ofProduct_def)
qed

theorem syncProductCompatibility_no_items_witness:
  "initializeApi quietEnv ''parts.myshopify.com'' syncedWorld = None
   \<and> find (\<lambda>p. p_shop p = ''parts.myshopify.com'' \<and> turn14Sku p = ''A100'') (products syncedWorld)
       = Some (exampleProduct 1 ''A100'')
   \<and> getItemCompatibility quietEnv ''A100'' = Inr None
   \<and> syncProductCompatibility quietEnv ''parts.myshopify.com'' ''A100'' syncedWorld
       = (Inr \<lparr>processed = 0, created = 0, updated = 0\<rparr>, syncedWorld)"
proof -
  have init: "initializeApi quietEnv ''parts.myshopify.com'' syncedWorld = None"
    by (simp add: initializeApi_def example_defs)
  have fetch: "getItemCompatibility quietEnv ''A100'' = Inr None" by (simp add: quietEnv_def)
  from syncProductCompatibility_no_items[OF init syncedWorld_product,
      THEN conjunct1, THEN mp, OF fetch] init fetch
  show ?thesis by (simp only: syncedWorld_product simp_thms)
qed

text \<open>
  C10 as stated fails: an empty \<open>items\<close> array passes the guard
  \<open>!compatibilityData || !compatibilityData.items\<close>, the delete runs, and the two
  stored rows of the product are gone.
\<close>

theorem syncProductCompatibility_empty_items_erase:
  "getItemCompatibility emptyItemsEnv ''A100'' = Inr (Some [])
   \<and> length (compatibility syncedWorld) = 2
   \<and> fst (syncProductCompatibility emptyItemsEnv ''parts.myshopify.com'' ''A100'' syncedWorld)
       = Inr \<lparr>processed = 0, created = 0, updated = 0\<rparr>
   \<and> compatibility (snd (syncProductCompatibility emptyItemsEnv ''parts.myshopify.com'' ''A100''
         syncedWorld)) = []"
  by (simp add: syncProductCompatibility_def emptyItemsEnv_def deleteCompatibility_def
      initializeApi_def example_defs)


section \<open>Properties: the scheduler's runs\<close>

lemma updateProduct_schedules [simp]: "schedules (snd (updateProduct pid f w)) = schedules w"
  by (simp add: updateProduct_def)

lemma createProduct_schedules [simp]: "schedules (snd (createProduct mk w)) = schedules w"
  by (simp add: createProduct_def Let_def)

lemma updateShopifyInventory_schedules [simp]:
  "schedules (snd (updateShopifyInventory env pid vid q w)) = schedules w"
  by (simp add: updateShopifyInventory_def Let_def split: option.splits sum.splits)

lemma updateShopifyPricing_schedules [simp]:
  "schedules (snd (updateShopifyPricing env pid vid p w)) = schedules w"
  by (simp add: updateShopifyPricing_def split: option.splits)

lemma importProductToShopify_schedules [simp]:
  "schedules (snd (importProductToShopify env tp markup st w)) = schedules w"
  by (simp add: importProductToShopify_def Let_def split: sum.splits)

lemma syncInventory_item_schedules [simp]:
  "schedules (snd (syncInventory_item env now p w)) = schedules w"
proof -
  have aux: "schedules (snd (case x of (Some e, w1) \<Rightarrow> (Some e, w1)
                                   | (None, w1) \<Rightarrow> updateProduct pid f w1)) = schedules (snd x)"
    for x :: "error option \<times> world" and pid f
    by (cases x; cases "fst x") auto
  show ?thesis
    by (simp add: syncInventory_item_def Let_def aux split: sum.splits option.splits list.splits)
qed

lemma syncPricing_item_schedules [simp]:
  "schedules (snd (syncPricing_item env now p w)) = schedules w"
proof -
  have aux: "schedules (snd (case x of (Some e, w1) \<Rightarrow> (Some e, w1)
                                   | (None, w1) \<Rightarrow> updateProduct pid f w1)) = schedules (snd x)"
    for x :: "error option \<times> world" and pid f
    by (cases x; cases "fst x") auto
  show ?thesis
    by (simp add: syncPricing_item_def Let_def aux split: sum.splits option.splits list.splits)
qed

lemma syncLoop_schedules:
  assumes "\<And>p w. schedules (snd (body p w)) = schedules w"
  shows "schedules (snd (syncLoop body now ps r w)) = schedules w"
proof (induction ps arbitrary: r w)
  case Nil
  show ?case by simp
next
  case (Cons p rest)
  obtain eo w1 where b: "body p w = (eo, w1)" by (metis prod.exhaust)
  from assms[of p w] b have w1: "schedules w1 = schedules w" by simp
  show ?case
  proof (cases eo)
    case None
    with b Cons.IH w1 show ?thesis by simp
  next
    case (Some e)
    let ?u = "updateProduct (p_id p) (\<lambda>p. p\<lparr>syncStatus := ''error'', syncErrors := Some [(now, e)]\<rparr>) w1"
    obtain e2 w2 where u: "?u = (e2, w2)" by (metis prod.exhaust)
    from updateProduct_schedules[of "p_id p" _ w1] u w1 have w2: "schedules w2 = schedules w"
      by (metis snd_conv)
    show ?thesis
    proof (cases e2)
      case None
      with b Some u Cons.IH w2 show ?thesis by simp
    next
      case (Some e')
      with b \<open>eo = Some e\<close> u w2 show ?thesis by simp
    qed
  qed
qed

lemma syncInventory_schedules [simp]:
  "schedules (snd (syncInventory env shop now w)) = schedules w"
  by (simp add: syncInventory_def Let_def syncLoop_schedules split: sum.splits option.splits)

lemma syncPricing_schedules [simp]:
  "schedules (snd (syncPricing env shop now w)) = schedules w"
  by (simp add: syncPricing_def Let_def syncLoop_schedules split: sum.splits option.splits)

lemma importNewProduct_schedules [simp]:
  "schedules (snd (importNewProduct env shop settings now tp w)) = schedules w"
proof -
  obtain res w1 where i: "importProductToShopify env tp (toNumber (defaultMarkup settings)) ''draft'' w
      = (res, w1)" by (metis prod.exhaust)
  from importProductToShopify_schedules[of env tp _ _ w] i have "schedules w1 = schedules w"
    by (metis snd_conv)
  with i show ?thesis
    by (cases res) (simp_all add: importNewProduct_def Let_def)
qed

lemma newProducts_items_schedules [simp]:
  "schedules (snd (newProducts_items env shop settings now E items r w)) = schedules w"
proof (induction items arbitrary: r w)
  case Nil
  show ?case by simp
next
  case (Cons tp rest)
  obtain eo w1 where b: "importNewProduct env shop settings now tp w = (eo, w1)"
    by (metis prod.exhaust)
  from importNewProduct_schedules[of env shop settings now tp w] b
  have "schedules w1 = schedules w" by simp
  with b Cons.IH show ?case by (cases eo) simp_all
qed

lemma newProducts_brands_schedules [simp]:
  "schedules (snd (newProducts_brands env shop settings now E brands r w)) = schedules w"
proof (induction brands arbitrary: r w)
  case Nil
  show ?case by simp
next
  case (Cons b rest)
  show ?case
  proof (cases "getItemsByBrand env b (pageSize settings)")
    case (Inl e)
    with Cons.IH show ?thesis by simp
  next
    case (Inr resp)
    show ?thesis
    proof (cases resp)
      case None
      with Inr Cons.IH show ?thesis by simp
    next
      case (Some items)
      obtain r1 w1 where it: "newProducts_items env shop settings now E items
          (r\<lparr>totalItems := totalItems r + length items\<rparr>) w = (r1, w1)"
        by (metis prod.exhaust)
      from newProducts_items_schedules[of env shop settings now E items _ w] it
      have "schedules w1 = schedules w" by (metis snd_conv)
      with Inr Some it Cons.IH show ?thesis by simp
    qed
  qed
qed

lemma syncNewProducts_schedules [simp]:
  "schedules (snd (syncNewProducts env shop settings now w)) = schedules w"
  by (simp add: syncNewProducts_def Let_def split: sum.splits option.splits prod.splits)
     (metis newProducts_brands_schedules snd_conv)

lemma fullSync_schedules [simp]:
  "schedules (snd (fullSync env shop settings now w)) = schedules w"
proof -
  obtain a w1 where i: "syncInventory env shop now w = (a, w1)" by (metis prod.exhaust)
  obtain b w2 where p: "syncPricing env shop now w1 = (b, w2)" by (metis prod.exhaust)
  obtain c w3 where n: "syncNewProducts env shop settings now w2 = (c, w3)"
    by (metis prod.exhaust)
  from syncInventory_schedules[of env shop now w] i have 1: "schedules w1 = schedules w" by simp
  from syncPricing_schedules[of env shop now w1] p 1 have 2: "schedules w2 = schedules w" by simp
  from syncNewProducts_schedules[of env shop settings now w2] n 2
  have 3: "schedules w3 = schedules w" by simp
  show ?thesis
    by (cases a; cases b; cases c) (simp_all add: fullSync_def i p n 1 2 3)
qed

lemma dispatchSync_schedules [simp]:
  "schedules (snd (dispatchSync env shop syncType settings now w)) = schedules w"
proof -
  have aux: "schedules (snd (case x of (Inl e, w1) \<Rightarrow> (Inl e, w1)
                                   | (Inr r, w1) \<Rightarrow> (Inr (Batch r), w1))) = schedules (snd x)"
    for x :: "(error + syncResult) \<times> world"
    by (cases x; cases "fst x") auto
  show ?thesis by (simp add: dispatchSync_def aux)
qed

lemma updateSyncJob_schedules [simp]:
  "schedules (snd (updateSyncJob jid d w)) = schedules w"
  by (simp add: updateSyncJob_def split: option.splits)

lemma failSyncJob_throws:
  "\<exists>e'. fst (failSyncJob jid e now w) = Inl e'"
  by (cases "updateSyncJob jid (JobFailed now e) w"; cases "fst (updateSyncJob jid (JobFailed now e) w)")
     (auto simp: failSyncJob_def)

lemma failSyncJob_schedules [simp]:
  "schedules (snd (failSyncJob jid e now w)) = schedules w"
proof -
  obtain eo w1 where u: "updateSyncJob jid (JobFailed now e) w = (eo, w1)" by (metis prod.exhaust)
  from updateSyncJob_schedules[of jid "JobFailed now e" w]
  have "schedules w1 = schedules w" unfolding u by simp
  with u show ?thesis by (cases eo) (simp_all add: failSyncJob_def)
qed

lemma updateSyncJob_completed_rejected:
  "\<exists>k. updateSyncJob jid (JobCompleted t res) w = (Some (ValidationError k), w)"
  by (cases res) (simp_all add: updateSyncJob_def jobFields_def)

lemma runSync_throws:
  "\<exists>e. fst (runSync env shop syncType sid settings now w) = Inl e"
proof -
  obtain job w0 where c: "createSyncJob shop syncType sid w = (job, w0)" by (metis prod.exhaust)
  obtain e1 w1 where r: "updateSyncJob (j_id job) (JobRunning now) w0 = (e1, w1)"
    by (metis prod.exhaust)
  show ?thesis
  proof (cases e1)
    case (Some e)
    with c r failSyncJob_throws[of "j_id job" e now w1] show ?thesis
      by (simp add: runSync_def)
  next
    case None
    obtain res w2 where d: "dispatchSync env shop syncType settings now w1 = (res, w2)"
      by (metis prod.exhaust)
    show ?thesis
    proof (cases res)
      case (Inl e)
      with c r None d failSyncJob_throws[of "j_id job" e now w2] show ?thesis
        by (simp add: runSync_def)
    next
      case (Inr results)
      from updateSyncJob_completed_rejected[of "j_id job" now results w2] obtain k where
        k: "updateSyncJob (j_id job) (JobCompleted now results) w2 = (Some (ValidationError k), w2)"
        by blast
      with c r None d Inr failSyncJob_throws[of "j_id job" "ValidationError k" now w2]
      show ?thesis by (simp add: runSync_def)
    qed
  qed
qed

lemma runSync_schedules [simp]:
  "schedules (snd (runSync env shop syncType sid settings now w)) = schedules w"
proof -
  obtain job w0 where c: "createSyncJob shop syncType sid w = (job, w0)" by (metis prod.exhaust)
  then have 0: "schedules w0 = schedules w" by (auto simp: createSyncJob_def Let_def)
  obtain e1 w1 where r: "updateSyncJob (j_id job) (JobRunning now) w0 = (e1, w1)"
    by (metis prod.exhaust)
  from updateSyncJob_schedules[of "j_id job" "JobRunning now" w0]
  have 1: "schedules w1 = schedules w" unfolding r 0 by simp
  show ?thesis
  proof (cases e1)
    case (Some e)
    with c r 1 show ?thesis by (simp add: runSync_def)
  next
    case None
    obtain res w2 where d: "dispatchSync env shop syncType settings now w1 = (res, w2)"
      by (metis prod.exhaust)
    from dispatchSync_schedules[of env shop syncType settings now w1]
    have 2: "schedules w2 = schedules w" unfolding d 1 by simp
    show ?thesis
    proof (cases res)
      case (Inl e)
      with c r None d 2 show ?thesis by (simp add: runSync_def)
    next
      case (Inr results)
      from updateSyncJob_completed_rejected[of "j_id job" now results w2] obtain k where
        k: "updateSyncJob (j_id job) (JobCompleted now results) w2 = (Some (ValidationError k), w2)"
        by blast
      with c r None d Inr 2 show ?thesis by (simp add: runSync_def)
    qed
  qed
qed

lemma createFailedJob_schedules [simp]:
  "schedules (createFailedJob sch e now w) = schedules w"
  by (simp add: createFailedJob_def)

lemma runScheduledSync_schedules:
  "schedules (runScheduledSync env z now sch w) = schedules w"
proof (cases "find (\<lambda>c. c_shop c = s_shop sch) (configs w)")
  case None
  then show ?thesis by (simp add: runScheduledSync_def)
next
  case (Some shopConfig)
  define settings where "settings = (case s_syncSettings sch of
                             None \<Rightarrow> \<lparr>maxNewProducts = None, defaultMarkup = None\<rparr>
                           | Some st \<Rightarrow> st)"
  obtain res w1 where r: "runSync env (s_shop sch) (s_syncType sch) (Some (s_id sch)) settings now w
      = (res, w1)" by (metis prod.exhaust)
  from runSync_throws[of env "s_shop sch" "s_syncType sch" "Some (s_id sch)" settings now w] r
  obtain e where e: "res = Inl e" by auto
  from runSync_schedules[of env "s_shop sch" "s_syncType sch" "Some (s_id sch)" settings now w]
  have "schedules w1 = schedules w" unfolding r by simp
  with Some r e show ?thesis
    by (simp add: runScheduledSync_def Let_def settings_def)
qed

text \<open>
  C7. The claim asks that \<open>lastRun\<close> and \<open>nextRun\<close> advance on every executed schedule,
  failed or not. The code calls \<open>markScheduleRun\<close> only after \<open>runSync\<close> has returned,
  and \<open>runSync\<close> never returns: its last update of the job spreads the result object
  into the data, the store rejects the unknown field, and the error is thrown again.
  So \<open>runScheduledSync\<close> leaves every schedule as it was, and a due schedule stays
  due. At the example (a configured shop, one product, an inventory schedule due at
  1000, run at 2000) the schedule is unchanged and two failed jobs are recorded.
\<close>

theorem runScheduledSync_never_advances:
  "schedules (runScheduledSync env z now sch w) = schedules w
   \<and> getSchedulesDue now (runScheduledSync env z now sch w) = getSchedulesDue now w
   \<and> getSchedulesDue 2000 dueWorld = [dueSchedule]
   \<and> schedules (runScheduledSync quietEnv z 2000 dueSchedule dueWorld) = [dueSchedule]
   \<and> map status (jobs (runScheduledSync quietEnv z 2000 dueSchedule dueWorld))
       = [''failed'', ''failed'']
   \<and> map errorMessage (jobs (runScheduledSync quietEnv z 2000 dueSchedule dueWorld))
       = [Some (ValidationError ''errors''), Some (ValidationError ''errors'')]"
proof (intro conjI)
  show s: "schedules (runScheduledSync env z now sch w) = schedules w"
    by (rule runScheduledSync_schedules)
  then show "getSchedulesDue now (runScheduledSync env z now sch w) = getSchedulesDue now w"
    by (simp add: getSchedulesDue_def)
  show "getSchedulesDue 2000 dueWorld = [dueSchedule]"
    by (simp add: getSchedulesDue_def dueWorld_def dueSchedule_def)
  show "schedules (runScheduledSync quietEnv z 2000 dueSchedule dueWorld) = [dueSchedule]"
    by (simp add: runScheduledSync_schedules dueWorld_def)
  have inv: "syncInventory quietEnv ''parts.myshopify.com'' 2000 w'
      = (Inr \<lparr>totalItems = 1, processedItems = 1, successItems = 1, failedItems = 0,
               errors = []\<rparr>, w')"
    if "configs w' = [exampleConfig]" "products w' = [exampleProduct 1 ''A100'']" for w'
    using that
    by (simp add: syncInventory_def getTurn14Config_def exampleConfig_def quietEnv_def
        activeProducts_def exampleProduct_def startResult_def syncInventory_item_def)
  have run: "runScheduledSync quietEnv z 2000 dueSchedule dueWorld
      = dueWorld\<lparr>jobs :=
          [\<lparr>j_id = 21, j_shop = ''parts.myshopify.com'', scheduleId = Some 20,
            j_syncType = ''inventory'', status = ''failed'', startTime = Some 2000,
            endTime = Some 2000, j_totalItems = 0, j_processedItems = 0,
            j_successItems = 0, j_failedItems = 0,
            errorMessage = Some (ValidationError ''errors''), results = None\<rparr>,
           \<lparr>j_id = 22, j_shop = ''parts.myshopify.com'', scheduleId = Some 20,
            j_syncType = ''inventory'', status = ''failed'', startTime = Some 2000,
            endTime = Some 2000, j_totalItems = 0, j_processedItems = 0,
            j_successItems = 0, j_failedItems = 0,
            errorMessage = Some (ValidationError ''errors''), results = None\<rparr>],
          nextId := 23\<rparr>"
    by (simp add: runScheduledSync_def runSync_def createSyncJob_def updateSyncJob_def
        failSyncJob_def createFailedJob_def dispatchSync_def inv jobFields_def Let_def
        dueWorld_def dueSchedule_def emptyWorld_def exampleConfig_def)
  show "map status (jobs (runScheduledSync quietEnv z 2000 dueSchedule dueWorld))
       = [''failed'', ''failed'']"
    by (simp add: run)
  show "map errorMessage (jobs (runScheduledSync quietEnv z 2000 dueSchedule dueWorld))
       = [Some (ValidationError ''errors''), Some (ValidationError ''errors'')]"
    by (simp add: run)
qed

end
